theory Spec2Isabelle
  imports Main "HOL-Library.Char_ord" "HOL-Library.List_Lexorder" "HOL-Library.Word"
begin

section \<open>JavaScript strings\<close>

text \<open>
  Strings are lists of characters. The model covers the code units below 256, where
  the white space of \<^verbatim>\<open>String.prototype.trim\<close> and of the regular expression class
  \<^verbatim>\<open>\s\<close> is TAB, LF, VT, FF, CR, SPACE and NBSP, and where
  \<^verbatim>\<open>toLowerCase\<close> moves A-Z and the Latin-1 capitals by 32. The relational
  operators of JavaScript on two strings compare code units lexicographically, which is
  the order of \<^typ>\<open>string\<close> used below.
\<close>

definition is_space :: "char \<Rightarrow> bool" where
  "is_space c = (of_char c \<in> {9, 10, 11, 12, 13, 32, 160 :: nat})"

definition trim :: "string \<Rightarrow> string" where
  "trim s = rev (dropWhile is_space (rev (dropWhile is_space s)))"

definition is_upper :: "char \<Rightarrow> bool" where
  "is_upper c = (let n = of_char c :: nat in
     (65 \<le> n \<and> n \<le> 90) \<or> (192 \<le> n \<and> n \<le> 214) \<or> (216 \<le> n \<and> n \<le> 222))"

definition lower_char :: "char \<Rightarrow> char" where
  "lower_char c = (if is_upper c then char_of (of_char c + 32 :: nat) else c)"

definition toLowerCase :: "string \<Rightarrow> string" where
  "toLowerCase s = map lower_char s"

definition is_digit :: "char \<Rightarrow> bool" where
  "is_digit c = (let n = of_char c :: nat in 48 \<le> n \<and> n \<le> 57)"

text \<open>The operator \<^verbatim>\<open>a || b\<close> on a string \<open>a\<close>: the empty string is falsy. A
  missing, \<^verbatim>\<open>null\<close> or \<^verbatim>\<open>undefined\<close> property is falsy as well, and is
  written as the empty string in a record of the model.\<close>

definition js_or :: "string \<Rightarrow> string \<Rightarrow> string" where
  "js_or a b = (if a = [] then b else a)"

text \<open>The decimal digits of a natural number.\<close>

definition digit :: "nat \<Rightarrow> char" where
  "digit n = ''0123456789'' ! n"

fun decimal :: "nat \<Rightarrow> string" where
  "decimal n = (if n < 10 then [digit n] else decimal (n div 10) @ [digit (n mod 10)])"

declare decimal.simps [simp del]

text \<open>
  A number of JavaScript is a double. The numbers the code turns into text are readings
  of \<^verbatim>\<open>Date.now()\<close>: non-negative integers below \<open>2^53\<close>, which a double holds
  exactly and which \<^verbatim>\<open>String(n)\<close> and a template literal write as their decimal
  digits. They are the values of the type \<^typ>\<open>53 word\<close>; other numbers are outside
  the model.
\<close>

definition js_String_num :: "53 word \<Rightarrow> string" where
  "js_String_num n = decimal (unat n)"

text \<open>\<^verbatim>\<open>/^[^\s@]+@[^\s@]+\.[^\s@]+$/.test(s)\<close>: a non-empty run without white space
  and without \<open>@\<close>, one \<open>@\<close>, and a second such run holding a dot that is neither
  its first nor its last character.\<close>

definition plain_char :: "char \<Rightarrow> bool" where
  "plain_char c = (\<not> is_space c \<and> c \<noteq> CHR ''@'')"

definition emailRegex_test :: "string \<Rightarrow> bool" where
  "emailRegex_test s =
     (takeWhile plain_char s \<noteq> [] \<and>
      (case dropWhile plain_char s of
         [] \<Rightarrow> False
       | c # d \<Rightarrow> c = CHR ''@'' \<and> list_all plain_char d \<and> CHR ''.'' \<in> set (butlast (tl d))))"

text \<open>\<^verbatim>\<open>/^[\+]?[\d\s\-\(\)]{7,15}$/.test(s)\<close>.\<close>

definition phone_char :: "char \<Rightarrow> bool" where
  "phone_char c =
     (is_digit c \<or> is_space c \<or> c = CHR ''-'' \<or> c = CHR ''('' \<or> c = CHR '')'')"

definition phoneRegex_test :: "string \<Rightarrow> bool" where
  "phoneRegex_test s =
     (let b = (case s of [] \<Rightarrow> [] | c # r \<Rightarrow> if c = CHR ''+'' then r else s)
      in list_all phone_char b \<and> 7 \<le> length b \<and> length b \<le> 15)"

section \<open>The domain object Contacto (con\_framework/js/contacto/domain/Contacto.js)\<close>

text \<open>
  One record type serves for the plain object handed to the constructor, for the
  instance and for the plain object \<^verbatim>\<open>toJSON\<close> returns: all three carry the same
  ten properties. The property \<^verbatim>\<open>id\<close> is the field \<open>id_c\<close>. Time stamps are the
  strings \<^verbatim>\<open>toISOString\<close> returns.
\<close>

record contacto =
  id_c :: string
  nombre :: string
  email :: string
  telefono :: string
  asunto :: string
  mensaje :: string
  preferenciaContacto :: string
  aceptaTerminos :: bool
  fechaCreacion :: string
  fechaActualizacion :: string

text \<open>
  What one run of the constructor reads from its environment: \<^verbatim>\<open>Date.now()\<close> and
  the nine characters cut from \<^verbatim>\<open>Math.random().toString(36)\<close> inside
  \<^verbatim>\<open>generateId\<close>, and the two \<^verbatim>\<open>new Date().toISOString()\<close> of the defaults.
  Theorems quantify over every environment.
\<close>

record entorno =
  date_now :: "53 word"
  random36 :: string
  iso_creacion :: string
  iso_actualizacion :: string

definition generateId :: "entorno \<Rightarrow> string" where
  "generateId e = ''contact_'' @ js_String_num (date_now e) @ ''_'' @ random36 e"

definition Contacto :: "entorno \<Rightarrow> contacto \<Rightarrow> contacto" where
  "Contacto e data =
     \<lparr> id_c = js_or (id_c data) (generateId e),
       nombre = js_or (nombre data) [],
       email = js_or (email data) [],
       telefono = js_or (telefono data) [],
       asunto = js_or (asunto data) [],
       mensaje = js_or (mensaje data) [],
       preferenciaContacto = js_or (preferenciaContacto data) ''Email'',
       aceptaTerminos = (aceptaTerminos data \<or> False),
       fechaCreacion = js_or (fechaCreacion data) (iso_creacion e),
       fechaActualizacion = js_or (fechaActualizacion data) (iso_actualizacion e) \<rparr>"

definition touch :: "string \<Rightarrow> contacto \<Rightarrow> contacto" where
  "touch ahora c = c\<lparr>fechaActualizacion := ahora\<rparr>"

datatype val_error =
    NombreObligatorio | NombreMuyCorto | NombreMuyLargo
  | EmailObligatorio | EmailFormato
  | TelefonoFormato
  | AsuntoObligatorio
  | MensajeMuyLargo
  | TerminosNoAceptados
  | PreferenciaInvalida

definition validate :: "contacto \<Rightarrow> val_error list" where
  "validate c =
     (if nombre c = [] \<or> length (trim (nombre c)) = 0 then [NombreObligatorio]
      else if length (trim (nombre c)) < 2 then [NombreMuyCorto]
      else if length (trim (nombre c)) > 100 then [NombreMuyLargo]
      else [])
   @ (if email c = [] \<or> length (trim (email c)) = 0 then [EmailObligatorio]
      else if emailRegex_test (trim (email c)) then []
      else [EmailFormato])
   @ (if telefono c \<noteq> [] \<and> length (trim (telefono c)) > 0
      then (if phoneRegex_test (trim (telefono c)) then [] else [TelefonoFormato])
      else [])
   @ (if asunto c = [] \<or> length (trim (asunto c)) = 0 then [AsuntoObligatorio] else [])
   @ (if mensaje c \<noteq> [] \<and> length (trim (mensaje c)) > 1000 then [MensajeMuyLargo] else [])
   @ (if aceptaTerminos c then [] else [TerminosNoAceptados])
   @ (if preferenciaContacto c \<in> set [''Email'', ''Telefono'', ''WhatsApp''] then []
      else [PreferenciaInvalida])"

definition isValid :: "contacto \<Rightarrow> bool" where
  "isValid c = (length (validate c) = 0)"

definition toJSON :: "contacto \<Rightarrow> contacto" where
  "toJSON c =
     \<lparr> id_c = id_c c,
       nombre = trim (nombre c),
       email = toLowerCase (trim (email c)),
       telefono = trim (telefono c),
       asunto = asunto c,
       mensaje = trim (mensaje c),
       preferenciaContacto = preferenciaContacto c,
       aceptaTerminos = aceptaTerminos c,
       fechaCreacion = fechaCreacion c,
       fechaActualizacion = fechaActualizacion c \<rparr>"

definition fromJSON :: "entorno \<Rightarrow> contacto \<Rightarrow> contacto" where
  "fromJSON e jsonData = Contacto e jsonData"

section \<open>The browser: localStorage and the console\<close>

text \<open>
  The text stored under the key \<^verbatim>\<open>contactos\<close> is classified by what
  \<^verbatim>\<open>JSON.parse\<close> makes of it: \<open>Vacio\<close> is the empty text and \<open>Ilegible\<close> any
  other text it rejects with a SyntaxError (it rejects the empty text as well, which
  alone among the texts is falsy), \<open>Nulo\<close> a text of a falsy value (\<^verbatim>\<open>null\<close>, \<^verbatim>\<open>false\<close>,
  \<^verbatim>\<open>0\<close>, \<^verbatim>\<open>""\<close>), \<open>NoArreglo\<close> a text of any other value that is not an
  array, and \<open>Arreglo ds\<close> the text of an array of contact objects.
  \<^verbatim>\<open>JSON.stringify\<close> of such an array gives \<open>Arreglo ds\<close> back: the two
  built-ins are inverse on arrays of objects whose properties are strings and booleans.
  A missing key is \<open>None\<close>. \<^verbatim>\<open>setItem\<close> always succeeds: the quota of the
  browser is outside the model.
\<close>

datatype json_text = Vacio | Ilegible | Nulo | NoArreglo | Arreglo "contacto list"

datatype nivel = LogError | LogWarn | LogInfo

datatype mensaje =
    ErrorAlObtenerContactos | Reinicializando | ErrorAlAgregar | ContactoAgregado
  | ErrorAlActualizar | ContactoActualizado | ErrorAlEliminar | ContactoEliminado
  | ContactosEliminados nat | ErrorAlImportar | ErrorEnGuardarContacto
  | Estadisticas | Almacenamiento

datatype js_error =
    SyntaxError | TypeError | ReferenceError
  | ContactoInvalido "val_error list"
  | IdDuplicado
  | NoEncontrado
  | NoEsArreglo
  | FormularioInvalido
  | EmailDuplicado

record estado =
  almacen :: "json_text option"
  consola :: "(nivel \<times> mensaje) list"

definition console :: "nivel \<Rightarrow> mensaje \<Rightarrow> estado \<Rightarrow> estado" where
  "console n m s = s\<lparr>consola := consola s @ [(n, m)]\<rparr>"

definition setItem :: "json_text \<Rightarrow> estado \<Rightarrow> estado" where
  "setItem v s = s\<lparr>almacen := Some v\<rparr>"

section \<open>ContactRepository (con\_framework/js/contacto/facade/ContactFacade.js)\<close>

text \<open>
  Every operation returns its result, or the error it throws, together with the state it
  leaves. Each call of \<^verbatim>\<open>getAll\<close> builds its instances anew, so each takes the
  environments of its constructor runs, one per array index. A value of type
  \<open>contacto\<close> handed to \<^verbatim>\<open>add\<close> or \<^verbatim>\<open>update\<close> is an instance of the
  class, so their test \<^verbatim>\<open>instanceof Contacto\<close> has no failing branch here.
\<close>

text \<open>\<^verbatim>\<open>!localStorage.getItem(key)\<close> holds of a missing key and of the empty text.\<close>

definition initializeStorage :: "estado \<Rightarrow> estado" where
  "initializeStorage s =
     (if almacen s = None \<or> almacen s = Some Vacio then setItem (Arreglo []) s else s)"

definition handleStorageError :: "estado \<Rightarrow> estado" where
  "handleStorageError s = setItem (Arreglo []) (console LogWarn Reinicializando s)"

text \<open>The body of the \<^verbatim>\<open>try\<close> block of \<^verbatim>\<open>getAll\<close>.\<close>

definition getAll_try :: "(nat \<Rightarrow> entorno) \<Rightarrow> estado \<Rightarrow> js_error + contacto list" where
  "getAll_try E s =
     (case almacen s of
        None \<Rightarrow> Inr []
      | Some Vacio \<Rightarrow> Inl SyntaxError
      | Some Ilegible \<Rightarrow> Inl SyntaxError
      | Some Nulo \<Rightarrow> Inr []
      | Some NoArreglo \<Rightarrow> Inl TypeError
      | Some (Arreglo ds) \<Rightarrow> Inr (map (\<lambda>(i, d). fromJSON (E i) d) (enumerate 0 ds)))"

definition getAll :: "(nat \<Rightarrow> entorno) \<Rightarrow> estado \<Rightarrow> contacto list \<times> estado" where
  "getAll E s =
     (case getAll_try E s of
        Inr contacts \<Rightarrow> (contacts, s)
      | Inl err \<Rightarrow> ([], handleStorageError (console LogError ErrorAlObtenerContactos s)))"

definition getById :: "(nat \<Rightarrow> entorno) \<Rightarrow> string \<Rightarrow> estado \<Rightarrow> contacto option \<times> estado" where
  "getById E i s =
     (case getAll E s of (contacts, s1) \<Rightarrow> (find (\<lambda>contact. id_c contact = i) contacts, s1))"

definition saveToStorage :: "contacto list \<Rightarrow> estado \<Rightarrow> estado" where
  "saveToStorage contacts s = setItem (Arreglo (map toJSON contacts)) s"

definition add ::
  "(nat \<Rightarrow> entorno) \<Rightarrow> (nat \<Rightarrow> entorno) \<Rightarrow> contacto \<Rightarrow> estado \<Rightarrow> (js_error + bool) \<times> estado" where
  "add E1 E2 contacto s =
     (if isValid contacto then
        (case getById E1 (id_c contacto) s of
           (Some x, s1) \<Rightarrow> (Inl IdDuplicado, console LogError ErrorAlAgregar s1)
         | (None, s1) \<Rightarrow>
             (case getAll E2 s1 of
                (contacts, s2) \<Rightarrow>
                  (Inr True,
                   console LogInfo ContactoAgregado (saveToStorage (contacts @ [contacto]) s2))))
      else (Inl (ContactoInvalido (validate contacto)), console LogError ErrorAlAgregar s))"

text \<open>\<^verbatim>\<open>Array.prototype.findIndex\<close>; \<open>None\<close> is its \<open>-1\<close>.\<close>

fun findIndex :: "('a \<Rightarrow> bool) \<Rightarrow> 'a list \<Rightarrow> nat option" where
  "findIndex P [] = None"
| "findIndex P (x # xs) = (if P x then Some 0 else map_option Suc (findIndex P xs))"

text \<open>\<^verbatim>\<open>xs.splice(i, 1)\<close>, as it leaves \<open>xs\<close>.\<close>

definition splice1 :: "nat \<Rightarrow> 'a list \<Rightarrow> 'a list" where
  "splice1 i xs = take i xs @ drop (Suc i) xs"

definition update ::
  "(nat \<Rightarrow> entorno) \<Rightarrow> string \<Rightarrow> contacto \<Rightarrow> estado \<Rightarrow> (js_error + bool) \<times> estado" where
  "update E ahora contacto s =
     (if isValid contacto then
        (case getAll E s of
           (contacts, s1) \<Rightarrow>
             (case findIndex (\<lambda>c. id_c c = id_c contacto) contacts of
                None \<Rightarrow> (Inl NoEncontrado, console LogError ErrorAlActualizar s1)
              | Some index \<Rightarrow>
                  (Inr True,
                   console LogInfo ContactoActualizado
                     (saveToStorage (contacts[index := touch ahora contacto]) s1))))
      else (Inl (ContactoInvalido (validate contacto)), console LogError ErrorAlActualizar s))"

definition remove ::
  "(nat \<Rightarrow> entorno) \<Rightarrow> string \<Rightarrow> estado \<Rightarrow> (js_error + bool) \<times> estado" where
  "remove E i s =
     (case getAll E s of
        (contacts, s1) \<Rightarrow>
          (case findIndex (\<lambda>contact. id_c contact = i) contacts of
             None \<Rightarrow> (Inl NoEncontrado, console LogError ErrorAlEliminar s1)
           | Some index \<Rightarrow>
               (Inr True,
                console LogInfo ContactoEliminado (saveToStorage (splice1 index contacts) s1))))"

definition clear :: "(nat \<Rightarrow> entorno) \<Rightarrow> estado \<Rightarrow> (js_error + bool) \<times> estado" where
  "clear E s =
     (case getAll E s of
        (contacts, s1) \<Rightarrow>
          (Inr True,
           console LogInfo (ContactosEliminados (length contacts)) (setItem (Arreglo []) s1)))"

definition existsByEmail ::
  "(nat \<Rightarrow> entorno) \<Rightarrow> string \<Rightarrow> string option \<Rightarrow> estado \<Rightarrow> bool \<times> estado" where
  "existsByEmail E email' excludeId s =
     (case getAll E s of
        (contacts, s1) \<Rightarrow>
          (list_ex (\<lambda>contact. toLowerCase (email contact) = toLowerCase email' \<and>
                      Some (id_c contact) \<noteq> excludeId) contacts,
           s1))"

definition exportToJSON :: "(nat \<Rightarrow> entorno) \<Rightarrow> estado \<Rightarrow> json_text \<times> estado" where
  "exportToJSON E s =
     (case getAll E s of (contacts, s1) \<Rightarrow> (Arreglo (map toJSON contacts), s1))"

record import_acc =
  currentContacts :: "contacto list"
  imported :: nat
  skipped :: nat
  errors :: "(nat \<times> val_error list) list"

text \<open>The callback of \<^verbatim>\<open>data.forEach\<close> in \<^verbatim>\<open>importFromJSON\<close>, from the element at
  \<open>index\<close> on. \<open>Ed\<close> gives the environment of \<^verbatim>\<open>Contacto.fromJSON\<close> for each
  element, \<open>Eg\<close> those of the \<^verbatim>\<open>getById\<close> made for it.\<close>

fun import_forEach ::
  "(nat \<Rightarrow> entorno) \<Rightarrow> (nat \<Rightarrow> nat \<Rightarrow> entorno) \<Rightarrow> nat \<Rightarrow> contacto list \<Rightarrow>
     import_acc \<Rightarrow> estado \<Rightarrow> import_acc \<times> estado" where
  "import_forEach Ed Eg index [] acc s = (acc, s)"
| "import_forEach Ed Eg index (contactData # rest) acc s =
     (let contacto = fromJSON (Ed index) contactData in
      if isValid contacto then
        (case getById (Eg index) (id_c contacto) s of
           (Some x, s1) \<Rightarrow>
             import_forEach Ed Eg (Suc index) rest (acc\<lparr>skipped := skipped acc + 1\<rparr>) s1
         | (None, s1) \<Rightarrow>
             import_forEach Ed Eg (Suc index) rest
               (acc\<lparr>currentContacts := currentContacts acc @ [contacto],
                    imported := imported acc + 1\<rparr>) s1)
      else
        import_forEach Ed Eg (Suc index) rest
          (acc\<lparr>errors := errors acc @ [(index + 1, validate contacto)]\<rparr>) s)"

record import_result =
  r_imported :: nat
  r_skipped :: nat
  r_errors :: "(nat \<times> val_error list) list"
  r_total :: nat

definition importFromJSON ::
  "(nat \<Rightarrow> entorno) \<Rightarrow> (nat \<Rightarrow> entorno) \<Rightarrow> (nat \<Rightarrow> nat \<Rightarrow> entorno) \<Rightarrow> json_text \<Rightarrow> estado \<Rightarrow>
     (js_error + import_result) \<times> estado" where
  "importFromJSON E Ed Eg jsonString s =
     (case jsonString of
        Vacio \<Rightarrow> (Inl SyntaxError, console LogError ErrorAlImportar s)
      | Ilegible \<Rightarrow> (Inl SyntaxError, console LogError ErrorAlImportar s)
      | Nulo \<Rightarrow> (Inl NoEsArreglo, console LogError ErrorAlImportar s)
      | NoArreglo \<Rightarrow> (Inl NoEsArreglo, console LogError ErrorAlImportar s)
      | Arreglo data \<Rightarrow>
          (case getAll E s of
             (current, s1) \<Rightarrow>
               (case import_forEach Ed Eg 0 data
                       \<lparr>currentContacts = current, imported = 0, skipped = 0, errors = []\<rparr> s1 of
                  (acc, s2) \<Rightarrow>
                    (Inr \<lparr>r_imported = imported acc, r_skipped = skipped acc,
                          r_errors = errors acc, r_total = length data\<rparr>,
                     saveToStorage (currentContacts acc) s2))))"

section \<open>ContactFacade.guardarContacto\<close>

definition validateForm :: "entorno \<Rightarrow> contacto \<Rightarrow> val_error list" where
  "validateForm e data = validate (Contacto e data)"

text \<open>\<^verbatim>\<open>updateStorageStats\<close> reads the store through \<^verbatim>\<open>getStats\<close> and writes
  two lines to the console; the warning it may show on the page is not part of the state.\<close>

definition updateStorageStats :: "(nat \<Rightarrow> entorno) \<Rightarrow> estado \<Rightarrow> estado" where
  "updateStorageStats E s =
     (case getAll E s of
        (contacts, s1) \<Rightarrow> console LogInfo Almacenamiento (console LogInfo Estadisticas s1))"

definition guardarContacto ::
  "entorno \<Rightarrow> entorno \<Rightarrow> (nat \<Rightarrow> entorno) \<Rightarrow> (nat \<Rightarrow> entorno) \<Rightarrow> (nat \<Rightarrow> entorno) \<Rightarrow>
     (nat \<Rightarrow> entorno) \<Rightarrow> contacto \<Rightarrow> estado \<Rightarrow> (js_error + bool) \<times> estado" where
  "guardarContacto e1 e2 Ee E1 E2 E3 datosFormulario s =
     (if length (validateForm e1 datosFormulario) = 0 then
        (let contacto = Contacto e2 datosFormulario in
         case existsByEmail Ee (email contacto) None s of
           (True, s1) \<Rightarrow> (Inl EmailDuplicado, console LogError ErrorEnGuardarContacto s1)
         | (False, s1) \<Rightarrow>
             (case add E1 E2 contacto s1 of
                (Inl err, s2) \<Rightarrow> (Inl err, console LogError ErrorEnGuardarContacto s2)
              | (Inr ok, s2) \<Rightarrow> (Inr True, updateStorageStats E3 s2)))
      else (Inl FormularioInvalido, console LogError ErrorEnGuardarContacto s))"

section \<open>The framework-free repositories (class ContactoRepository)\<close>

text \<open>
  Three files define a class \<^verbatim>\<open>ContactoRepository\<close>:
  \<^verbatim>\<open>sin_framework/js/capaAccesoADatos/repositorios/contactoRepository.js\<close>, which keeps
  the array \<^verbatim>\<open>this.repo\<close> in memory only (suffix \<open>_mem\<close> below), and two
  further versions that mirror the array to localStorage: an earlier one that assigns to
  the undeclared names \<^verbatim>\<open>indice\<close> and \<^verbatim>\<open>i\<close> (suffix \<open>_ls0\<close>) and a later
  one that declares them with \<^verbatim>\<open>let\<close> (suffix \<open>_ls\<close>).

  The class \<^verbatim>\<open>Contacto\<close> of this tree lives in a file of its own, which is not modelled. The repositories read
  two properties of a contact, \<^verbatim>\<open>id\<close> and \<^verbatim>\<open>fechaCreacion\<close>; the others are
  the field \<open>resto\<close>, of any type. The facade passes \<^verbatim>\<open>Date.now()\<close>, a number, as
  the identifier of a new contact, and the page passes the text of a
  \<^verbatim>\<open>data-id\<close> attribute to \<^verbatim>\<open>remove\<close>, so an identifier is such a number or a
  string.
\<close>

datatype js_id = IdNum "53 word" | IdStr string

fun js_String :: "js_id \<Rightarrow> string" where
  "js_String (IdNum n) = js_String_num n"
| "js_String (IdStr s) = s"

record 'a contacto_sf =
  id_sf :: js_id
  fechaCreacion_sf :: string
  resto :: 'a

text \<open>The stored text, by what \<^verbatim>\<open>datos ? JSON.parse(datos) : []\<close> makes of it: the
  empty text is falsy, \<open>SfIlegible\<close> makes \<^verbatim>\<open>JSON.parse\<close> throw, \<open>SfArreglo\<close> is
  the text of an array of contacts.\<close>

datatype 'a sf_text = SfVacio | SfIlegible | SfArreglo "'a contacto_sf list"

record 'a estado_sf =
  repo :: "'a contacto_sf list"
  localStorage :: "'a sf_text option"

definition cargarAlmacenamiento :: "'a estado_sf \<Rightarrow> js_error + 'a estado_sf" where
  "cargarAlmacenamiento s =
     (case localStorage s of
        None \<Rightarrow> Inr (s\<lparr>repo := []\<rparr>)
      | Some SfVacio \<Rightarrow> Inr (s\<lparr>repo := []\<rparr>)
      | Some SfIlegible \<Rightarrow> Inl SyntaxError
      | Some (SfArreglo ds) \<Rightarrow> Inr (s\<lparr>repo := ds\<rparr>))"

definition guardarAlmacenamiento :: "'a estado_sf \<Rightarrow> 'a estado_sf" where
  "guardarAlmacenamiento s = s\<lparr>localStorage := Some (SfArreglo (repo s))\<rparr>"

text \<open>The loop of \<^verbatim>\<open>indiceElemento\<close>, from index \<open>i\<close> on: the first index whose
  element satisfies the test, or \<open>-1\<close>.\<close>

function bucle :: "('a \<Rightarrow> bool) \<Rightarrow> 'a list \<Rightarrow> nat \<Rightarrow> int" where
  "bucle P xs i =
     (if i < length xs then (if P (xs ! i) then int i else bucle P xs (Suc i)) else - 1)"
  by pat_completeness auto
termination
  by (relation "measure (\<lambda>(P, xs, i). length xs - i)") auto

declare bucle.simps [simp del]

subsection \<open>The later localStorage repository\<close>

definition getAll_ls :: "'a estado_sf \<Rightarrow> (js_error + 'a contacto_sf list) \<times> 'a estado_sf" where
  "getAll_ls s =
     (case cargarAlmacenamiento s of
        Inl err \<Rightarrow> (Inl err, s)
      | Inr s1 \<Rightarrow> (Inr (repo s1), s1))"

definition add_ls :: "'a contacto_sf \<Rightarrow> 'a estado_sf \<Rightarrow> (js_error + unit) \<times> 'a estado_sf" where
  "add_ls contacto s =
     (case cargarAlmacenamiento s of
        Inl err \<Rightarrow> (Inl err, s)
      | Inr s1 \<Rightarrow> (Inr (), guardarAlmacenamiento (s1\<lparr>repo := repo s1 @ [contacto]\<rparr>)))"

definition indiceElemento_ls :: "js_id \<Rightarrow> 'a estado_sf \<Rightarrow> (js_error + int) \<times> 'a estado_sf" where
  "indiceElemento_ls i s =
     (case cargarAlmacenamiento s of
        Inl err \<Rightarrow> (Inl err, s)
      | Inr s1 \<Rightarrow> (Inr (bucle (\<lambda>c. js_String (id_sf c) = js_String i) (repo s1) 0), s1))"

definition update_ls :: "'a contacto_sf \<Rightarrow> 'a estado_sf \<Rightarrow> (js_error + bool) \<times> 'a estado_sf" where
  "update_ls contacto s =
     (case cargarAlmacenamiento s of
        Inl err \<Rightarrow> (Inl err, s)
      | Inr s1 \<Rightarrow>
          (case indiceElemento_ls (id_sf contacto) s1 of
             (Inl err, s2) \<Rightarrow> (Inl err, s2)
           | (Inr indiceActualizar, s2) \<Rightarrow>
               if indiceActualizar > 0 then
                 (let contacto' =
                        contacto\<lparr>fechaCreacion_sf :=
                                   fechaCreacion_sf (repo s2 ! nat indiceActualizar)\<rparr>
                  in (Inr True,
                      guardarAlmacenamiento
                        (s2\<lparr>repo := (repo s2)[nat indiceActualizar := contacto']\<rparr>)))
               else (Inr False, s2)))"

definition remove_ls :: "js_id \<Rightarrow> 'a estado_sf \<Rightarrow> (js_error + bool) \<times> 'a estado_sf" where
  "remove_ls i s =
     (case cargarAlmacenamiento s of
        Inl err \<Rightarrow> (Inl err, s)
      | Inr s1 \<Rightarrow>
          (case indiceElemento_ls i s1 of
             (Inl err, s2) \<Rightarrow> (Inl err, s2)
           | (Inr indiceEliminar, s2) \<Rightarrow>
               if indiceEliminar \<noteq> - 1 then
                 (Inr True,
                  guardarAlmacenamiento (s2\<lparr>repo := splice1 (nat indiceEliminar) (repo s2)\<rparr>))
               else (Inr False, s2)))"

definition clear_ls :: "'a estado_sf \<Rightarrow> (js_error + unit) \<times> 'a estado_sf" where
  "clear_ls s = (Inr (), guardarAlmacenamiento (s\<lparr>repo := []\<rparr>))"

subsection \<open>The earlier localStorage repository\<close>

text \<open>
  Its methods assign to \<^verbatim>\<open>indice\<close> and \<^verbatim>\<open>i\<close> without declaring them. A class
  body is strict code, so the assignment throws a ReferenceError unless the global object
  already has properties of these names; \<open>globales\<close> says whether it has. It compares
  identifiers with \<^verbatim>\<open>===\<close>.
\<close>

definition indiceElemento_ls0 ::
  "bool \<Rightarrow> js_id \<Rightarrow> 'a estado_sf \<Rightarrow> (js_error + int) \<times> 'a estado_sf" where
  "indiceElemento_ls0 globales i s =
     (case cargarAlmacenamiento s of
        Inl err \<Rightarrow> (Inl err, s)
      | Inr s1 \<Rightarrow>
          if globales then (Inr (bucle (\<lambda>c. id_sf c = i) (repo s1) 0), s1)
          else (Inl ReferenceError, s1))"

definition update_ls0 ::
  "bool \<Rightarrow> 'a contacto_sf \<Rightarrow> 'a estado_sf \<Rightarrow> (js_error + bool) \<times> 'a estado_sf" where
  "update_ls0 globales contacto s =
     (case cargarAlmacenamiento s of
        Inl err \<Rightarrow> (Inl err, s)
      | Inr s1 \<Rightarrow>
          (case indiceElemento_ls0 globales (id_sf contacto) s1 of
             (Inl err, s2) \<Rightarrow> (Inl err, s2)
           | (Inr indice, s2) \<Rightarrow>
               if indice > 0 then
                 (let contacto' =
                        contacto\<lparr>fechaCreacion_sf := fechaCreacion_sf (repo s2 ! nat indice)\<rparr>
                  in (Inr True,
                      guardarAlmacenamiento (s2\<lparr>repo := (repo s2)[nat indice := contacto']\<rparr>)))
               else (Inr False, s2)))"

text \<open>In \<^verbatim>\<open>remove\<close> the comparison sits inside the assignment,
  \<^verbatim>\<open>indice = this.indiceElemento(id) > 0\<close>, so \<^verbatim>\<open>indice\<close> is a boolean, and
  \<^verbatim>\<open>splice(true, 1)\<close> removes the element at index 1.\<close>

definition remove_ls0 ::
  "bool \<Rightarrow> js_id \<Rightarrow> 'a estado_sf \<Rightarrow> (js_error + bool) \<times> 'a estado_sf" where
  "remove_ls0 globales i s =
     (case cargarAlmacenamiento s of
        Inl err \<Rightarrow> (Inl err, s)
      | Inr s1 \<Rightarrow>
          (case indiceElemento_ls0 globales i s1 of
             (Inl err, s2) \<Rightarrow> (Inl err, s2)
           | (Inr n, s2) \<Rightarrow>
               (let indice = (n > 0) in
                if indice then
                  (Inr True, guardarAlmacenamiento (s2\<lparr>repo := splice1 1 (repo s2)\<rparr>))
                else (Inr False, s2))))"

subsection \<open>The in-memory repository\<close>

text \<open>It never touches localStorage. Its \<^verbatim>\<open>clear\<close> calls \<^verbatim>\<open>this.repo.clear()\<close>,
  and an array has no method of that name: the call throws a TypeError.\<close>

definition getAll_mem :: "'a estado_sf \<Rightarrow> 'a contacto_sf list \<times> 'a estado_sf" where
  "getAll_mem s = (repo s, s)"

definition add_mem :: "'a contacto_sf \<Rightarrow> 'a estado_sf \<Rightarrow> 'a estado_sf" where
  "add_mem contacto s = s\<lparr>repo := repo s @ [contacto]\<rparr>"

definition indiceElemento_mem :: "bool \<Rightarrow> js_id \<Rightarrow> 'a estado_sf \<Rightarrow> js_error + int" where
  "indiceElemento_mem globales i s =
     (if globales then Inr (bucle (\<lambda>c. id_sf c = i) (repo s) 0) else Inl ReferenceError)"

definition update_mem ::
  "bool \<Rightarrow> 'a contacto_sf \<Rightarrow> 'a estado_sf \<Rightarrow> (js_error + unit) \<times> 'a estado_sf" where
  "update_mem globales contacto s =
     (case indiceElemento_mem globales (id_sf contacto) s of
        Inl err \<Rightarrow> (Inl err, s)
      | Inr indice \<Rightarrow>
          if indice > 0 then (Inr (), s\<lparr>repo := (repo s)[nat indice := contacto]\<rparr>)
          else (Inr (), s))"

definition remove_mem ::
  "bool \<Rightarrow> js_id \<Rightarrow> 'a estado_sf \<Rightarrow> (js_error + unit) \<times> 'a estado_sf" where
  "remove_mem globales i s =
     (case indiceElemento_mem globales i s of
        Inl err \<Rightarrow> (Inl err, s)
      | Inr n \<Rightarrow>
          (let indice = (n > 0) in
           if indice then (Inr (), s\<lparr>repo := splice1 1 (repo s)\<rparr>) else (Inr (), s)))"

definition clear_mem :: "'a estado_sf \<Rightarrow> (js_error + unit) \<times> 'a estado_sf" where
  "clear_mem s = (Inl TypeError, s)"

section \<open>Invariants and operation sequences\<close>

text \<open>
  The constructor never leaves four properties empty: the identifier, the preference and
  the two time stamps (\<^verbatim>\<open>toISOString\<close> never returns the empty string, which
  \<open>entorno_ok\<close> says of an environment). A plain object is canonical when it is the
  \<^verbatim>\<open>toJSON\<close> of such an instance: reading it back and serializing it again changes
  nothing.
\<close>

definition entorno_ok :: "entorno \<Rightarrow> bool" where
  "entorno_ok e = (iso_creacion e \<noteq> [] \<and> iso_actualizacion e \<noteq> [])"

definition instancia :: "contacto \<Rightarrow> bool" where
  "instancia c =
     (id_c c \<noteq> [] \<and> preferenciaContacto c \<noteq> [] \<and> fechaCreacion c \<noteq> [] \<and>
      fechaActualizacion c \<noteq> [])"

definition canonico :: "contacto \<Rightarrow> bool" where
  "canonico d =
     (instancia d \<and> trim (nombre d) = nombre d \<and> toLowerCase (trim (email d)) = email d \<and>
      trim (telefono d) = telefono d \<and> trim (mensaje d) = mensaje d)"

text \<open>The stored collection: the array the stored text holds, empty when there is none.\<close>

definition guardados :: "estado \<Rightarrow> contacto list" where
  "guardados s = (case almacen s of Some (Arreglo ds) \<Rightarrow> ds | _ \<Rightarrow> [])"

definition almacen_ok :: "estado \<Rightarrow> bool" where
  "almacen_ok s = list_all (\<lambda>d. canonico d \<and> isValid d) (guardados s)"

text \<open>What \<^verbatim>\<open>getAll\<close> makes of a stored array.\<close>

definition leer :: "(nat \<Rightarrow> entorno) \<Rightarrow> contacto list \<Rightarrow> contacto list" where
  "leer E ds = map (\<lambda>(i, d). fromJSON (E i) d) (enumerate 0 ds)"

datatype operacion =
    Add "nat \<Rightarrow> entorno" "nat \<Rightarrow> entorno" contacto
  | Update "nat \<Rightarrow> entorno" string contacto
  | Remove "nat \<Rightarrow> entorno" string
  | Clear "nat \<Rightarrow> entorno"
  | Import "nat \<Rightarrow> entorno" "nat \<Rightarrow> entorno" "nat \<Rightarrow> nat \<Rightarrow> entorno" json_text

fun aplicar :: "operacion \<Rightarrow> estado \<Rightarrow> estado" where
  "aplicar (Add E1 E2 c) s = snd (add E1 E2 c s)"
| "aplicar (Update E ahora c) s = snd (update E ahora c s)"
| "aplicar (Remove E i) s = snd (remove E i s)"
| "aplicar (Clear E) s = snd (clear E s)"
| "aplicar (Import E Ed Eg j) s = snd (importFromJSON E Ed Eg j s)"

fun ejecutar :: "operacion list \<Rightarrow> estado \<Rightarrow> estado" where
  "ejecutar [] s = s"
| "ejecutar (op # ops) s = ejecutar ops (aplicar op s)"

text \<open>The operations other than the import, with a candidate that has an identifier.\<close>

fun con_id :: "operacion \<Rightarrow> bool" where
  "con_id (Add E1 E2 c) = (id_c c \<noteq> [])"
| "con_id (Update E ahora c) = (id_c c \<noteq> [])"
| "con_id (Remove E i) = True"
| "con_id (Clear E) = True"
| "con_id (Import E Ed Eg j) = False"

text \<open>The operations whose candidates are instances, read under a clock that works.\<close>

fun entrada_ok :: "operacion \<Rightarrow> bool" where
  "entrada_ok (Add E1 E2 c) = instancia c"
| "entrada_ok (Update E ahora c) = (instancia c \<and> ahora \<noteq> [])"
| "entrada_ok (Remove E i) = True"
| "entrada_ok (Clear E) = True"
| "entrada_ok (Import E Ed Eg j) =
     (case j of
        Arreglo data \<Rightarrow> list_all (\<lambda>i. entorno_ok (Ed i)) [0..<length data]
      | _ \<Rightarrow> True)"

text \<open>No stored record lacks an identifier, and no two share one.\<close>

definition ids_ok :: "estado \<Rightarrow> bool" where
  "ids_ok s =
     (list_all (\<lambda>d. id_c d \<noteq> []) (guardados s) \<and> distinct (map id_c (guardados s)))"

text \<open>The stored text is one that \<^verbatim>\<open>getAll\<close> reads without an error.\<close>

definition legible :: "estado \<Rightarrow> bool" where
  "legible s =
     (almacen s \<noteq> Some Vacio \<and> almacen s \<noteq> Some Ilegible \<and> almacen s \<noteq> Some NoArreglo)"

section \<open>Example data\<close>

definition e0 :: entorno where
  "e0 = \<lparr>date_now = 1700000000000, random36 = ''k3j9x0a1b'',
          iso_creacion = ''2023-11-14T22:13:20.000Z'',
          iso_actualizacion = ''2023-11-14T22:13:20.000Z''\<rparr>"

definition E0 :: "nat \<Rightarrow> entorno" where
  "E0 = (\<lambda>i. e0)"

definition ana :: contacto where
  "ana = \<lparr>id_c = ''contact_1_a'', nombre = '' Ana Ruiz '', email = ''Ana@X.com'',
           telefono = [], asunto = ''consulta'', mensaje = [],
           preferenciaContacto = ''Email'', aceptaTerminos = True,
           fechaCreacion = ''2023-11-14T22:13:20.000Z'',
           fechaActualizacion = ''2023-11-14T22:13:20.000Z''\<rparr>"

definition s_vacio :: estado where
  "s_vacio = \<lparr>almacen = Some (Arreglo []), consola = []\<rparr>"

definition s_ilegible :: estado where
  "s_ilegible = \<lparr>almacen = Some Ilegible, consola = []\<rparr>"

definition k1 :: "unit contacto_sf" where
  "k1 = \<lparr>id_sf = IdNum 1, fechaCreacion_sf = ''2023-11-14T22:13:20.001Z'', resto = ()\<rparr>"

definition k2 :: "unit contacto_sf" where
  "k2 = \<lparr>id_sf = IdNum 2, fechaCreacion_sf = ''2023-11-14T22:13:20.002Z'', resto = ()\<rparr>"

definition k3 :: "unit contacto_sf" where
  "k3 = \<lparr>id_sf = IdNum 3, fechaCreacion_sf = ''2023-11-14T22:13:20.003Z'', resto = ()\<rparr>"

definition s_tres :: "unit estado_sf" where
  "s_tres = \<lparr>repo = [k1, k2, k3], localStorage = Some (SfArreglo [k1, k2, k3])\<rparr>"

definition s_nuevo :: "unit estado_sf" where
  "s_nuevo = \<lparr>repo = [], localStorage = None\<rparr>"

definition ana_guardada :: contacto where
  "ana_guardada = ana\<lparr>nombre := ''Ana Ruiz'', email := ''ana@x.com''\<rparr>"

definition s_ana :: estado where
  "s_ana = \<lparr>almacen = Some (Arreglo [ana_guardada]), consola = []\<rparr>"

definition ana_bis :: contacto where
  "ana_bis = ana\<lparr>id_c := ''contact_2_b'', nombre := ''Ana R.'', email := ''ANA@x.com''\<rparr>"

definition ana_bis_guardada :: contacto where
  "ana_bis_guardada = ana_bis\<lparr>email := ''ana@x.com''\<rparr>"

definition sin_terminos :: contacto where
  "sin_terminos = ana\<lparr>id_c := ''contact_3_c'', aceptaTerminos := False\<rparr>"

definition beto :: contacto where
  "beto = \<lparr>id_c = ''contact_4_d'', nombre = ''Beto Paz'', email = ''beto@y.org'',
            telefono = ''+57 300 1234567'', asunto = ''proyecto'', mensaje = ''Hola'',
            preferenciaContacto = ''WhatsApp'', aceptaTerminos = True,
            fechaCreacion = ''2023-11-15T08:00:00.000Z'',
            fechaActualizacion = ''2023-11-15T08:00:00.000Z''\<rparr>"

definition ana_sin_terminos :: contacto where
  "ana_sin_terminos = ana\<lparr>aceptaTerminos := False\<rparr>"

definition creada :: string where
  "creada = ''2023-11-14T22:13:20.000Z''"

definition despues :: string where
  "despues = ''2023-11-16T09:30:00.000Z''"

definition s_sin_clave :: estado where
  "s_sin_clave = \<lparr>almacen = None, consola = []\<rparr>"

definition s_dos :: estado where
  "s_dos = \<lparr>almacen = Some (Arreglo [beto, ana_guardada]), consola = []\<rparr>"

definition k2_nuevo :: "unit contacto_sf" where
  "k2_nuevo = \<lparr>id_sf = IdStr ''2'', fechaCreacion_sf = ''2024-01-01T00:00:00.000Z'', resto = ()\<rparr>"

definition k2_num :: "unit contacto_sf" where
  "k2_num = \<lparr>id_sf = IdNum 2, fechaCreacion_sf = ''2024-01-01T00:00:00.000Z'', resto = ()\<rparr>"

definition carla :: contacto where
  "carla = \<lparr>id_c = ''contact_5_e'', nombre = ''  Carla Gil '', email = '' Carla@Z.NET '',
             telefono = '' 3001234567 '', asunto = '' consulta '', mensaje = '' Hola  '',
             preferenciaContacto = ''Telefono'', aceptaTerminos = True,
             fechaCreacion = ''2023-11-17T10:00:00.000Z'',
             fechaActualizacion = ''2023-11-17T10:00:00.000Z''\<rparr>"

definition carla_guardada :: contacto where
  "carla_guardada =
     \<lparr>id_c = ''contact_5_e'', nombre = ''Carla Gil'', email = ''carla@z.net'',
      telefono = ''3001234567'', asunto = '' consulta '', mensaje = ''Hola'',
      preferenciaContacto = ''Telefono'', aceptaTerminos = True,
      fechaCreacion = ''2023-11-17T10:00:00.000Z'',
      fechaActualizacion = ''2023-11-17T10:00:00.000Z''\<rparr>"

definition s_importado :: estado where
  "s_importado =
     snd (importFromJSON E0 E0 (\<lambda>i. E0) (Arreglo [ana_guardada, ana_guardada]) s_vacio)"

section \<open>Basic facts about the repository operations\<close>

lemma getAll_absent [simp]:
  "almacen s = None \<Longrightarrow> getAll E s = ([], s)"
  by (simp add: getAll_def getAll_try_def)

lemma getAll_Nulo [simp]:
  "almacen s = Some Nulo \<Longrightarrow> getAll E s = ([], s)"
  by (simp add: getAll_def getAll_try_def)

lemma getAll_Arreglo:
  "almacen s = Some (Arreglo ds) \<Longrightarrow>
     getAll E s = (map (\<lambda>(i, d). fromJSON (E i) d) (enumerate 0 ds), s)"
  by (simp add: getAll_def getAll_try_def)

lemma getAll_reset:
  "almacen s = Some Vacio \<or> almacen s = Some Ilegible \<or> almacen s = Some NoArreglo \<Longrightarrow>
     getAll E s =
       ([], s\<lparr>almacen := Some (Arreglo []),
               consola := consola s @ [(LogError, ErrorAlObtenerContactos),
                                       (LogWarn, Reinicializando)]\<rparr>)"
  by (auto simp add: getAll_def getAll_try_def handleStorageError_def setItem_def console_def)

lemma bucle_findIndex_aux:
  "bucle P (ys @ xs) (length ys) =
     (case findIndex P xs of None \<Rightarrow> - 1 | Some k \<Rightarrow> int (length ys + k))"
proof (induction xs arbitrary: ys)
  case Nil
  show ?case by (subst bucle.simps) simp
next
  case (Cons x xs)
  have step: "bucle P ((ys @ [x]) @ xs) (length (ys @ [x])) =
      (case findIndex P xs of None \<Rightarrow> - 1 | Some k \<Rightarrow> int (length (ys @ [x]) + k))"
    by (rule Cons.IH)
  show ?case
  proof (cases "P x")
    case True
    then show ?thesis by (subst bucle.simps) simp
  next
    case False
    with step show ?thesis
      by (subst bucle.simps) (simp split: option.splits)
  qed
qed

lemma bucle_findIndex:
  "bucle P xs 0 = (case findIndex P xs of None \<Rightarrow> - 1 | Some k \<Rightarrow> int k)"
  using bucle_findIndex_aux [of P "[]" xs] by (simp split: option.splits)

lemma findIndex_None_iff: "findIndex P xs = None \<longleftrightarrow> \<not> list_ex P xs"
  by (induction xs) auto

lemma findIndex_Some:
  "findIndex P xs = Some k \<Longrightarrow> k < length xs \<and> P (xs ! k) \<and> \<not> list_ex P (take k xs)"
proof (induction xs arbitrary: k)
  case Nil
  then show ?case by simp
next
  case (Cons x xs)
  show ?case
  proof (cases "P x")
    case True
    with Cons.prems show ?thesis by simp
  next
    case False
    with Cons.prems obtain j where j: "findIndex P xs = Some j" "k = Suc j"
      by auto
    from Cons.IH [OF j(1)] False j(2) show ?thesis by simp
  qed
qed

section \<open>Facts about trim and toLowerCase\<close>

lemma trim_idem [simp]: "trim (trim s) = trim s"
proof -
  define t where "t = dropWhile is_space s"
  define u where "u = dropWhile is_space (rev t)"
  have split: "rev t = takeWhile is_space (rev t) @ u"
    by (simp add: u_def)
  have u_fix: "dropWhile is_space u = u"
    by (simp add: u_def)
  have front: "dropWhile is_space (rev u) = rev u"
  proof (cases "u = []")
    case True
    then show ?thesis by simp
  next
    case False
    from split have "t = rev u @ rev (takeWhile is_space (rev t))"
      by (metis rev_append rev_rev_ident)
    with False have hd_eq: "hd t = hd (rev u)" and t_ne: "t \<noteq> []"
      by (metis hd_append2 rev_is_Nil_conv, metis Nil_is_append_conv rev_is_Nil_conv)
    from t_ne have "\<not> is_space (hd t)"
      unfolding t_def by (rule hd_dropWhile)
    with hd_eq show ?thesis by (simp add: dropWhile_eq_self_iff)
  qed
  have "trim s = rev u"
    by (simp add: trim_def t_def u_def)
  moreover have "trim (rev u) = rev u"
    by (simp add: trim_def front u_fix)
  ultimately show ?thesis by simp
qed

lemma trim_Nil [simp]: "trim [] = []"
  by (simp add: trim_def)

lemma of_char_lower_char:
  "of_char (lower_char c) = (if is_upper c then of_char c + 32 else (of_char c :: nat))"
proof (cases "is_upper c")
  case True
  then have "of_char c + 32 < (256 :: nat)"
    by (auto simp add: is_upper_def Let_def)
  with True show ?thesis by (simp add: lower_char_def)
next
  case False
  then show ?thesis by (simp add: lower_char_def)
qed

lemma is_upper_lower_char [simp]: "\<not> is_upper (lower_char c)"
  by (auto simp add: is_upper_def Let_def of_char_lower_char)

lemma lower_char_idem [simp]: "lower_char (lower_char c) = lower_char c"
  by (subst lower_char_def [of "lower_char c"]) simp

lemma toLowerCase_idem [simp]: "toLowerCase (toLowerCase s) = toLowerCase s"
  by (simp add: toLowerCase_def)

lemma is_space_lower_char [simp]: "is_space (lower_char c) = is_space c"
  by (auto simp add: is_space_def of_char_lower_char is_upper_def Let_def)

lemma lower_char_eq_at [simp]: "lower_char c = CHR ''@'' \<longleftrightarrow> c = CHR ''@''"
proof
  assume "lower_char c = CHR ''@''"
  then have "of_char (lower_char c) = (64 :: nat)" by simp
  then have "\<not> is_upper c"
    by (auto simp add: of_char_lower_char is_upper_def Let_def split: if_splits)
  with \<open>lower_char c = CHR ''@''\<close> show "c = CHR ''@''" by (simp add: lower_char_def)
next
  assume "c = CHR ''@''"
  then show "lower_char c = CHR ''@''" by (simp add: lower_char_def is_upper_def)
qed

lemma lower_char_eq_dot [simp]: "lower_char c = CHR ''.'' \<longleftrightarrow> c = CHR ''.''"
proof
  assume "lower_char c = CHR ''.''"
  then have "of_char (lower_char c) = (46 :: nat)" by simp
  then have "\<not> is_upper c"
    by (auto simp add: of_char_lower_char is_upper_def Let_def split: if_splits)
  with \<open>lower_char c = CHR ''.''\<close> show "c = CHR ''.''" by (simp add: lower_char_def)
next
  assume "c = CHR ''.''"
  then show "lower_char c = CHR ''.''" by (simp add: lower_char_def is_upper_def)
qed

lemma is_space_comp_lower [simp]: "is_space \<circ> lower_char = is_space"
  by (rule ext) simp

lemma trim_toLowerCase: "trim (toLowerCase s) = toLowerCase (trim s)"
  by (simp add: trim_def toLowerCase_def dropWhile_map rev_map)

lemma length_toLowerCase [simp]: "length (toLowerCase s) = length s"
  by (simp add: toLowerCase_def)

lemma toLowerCase_Nil_iff [simp]: "toLowerCase s = [] \<longleftrightarrow> s = []"
  by (simp add: toLowerCase_def)

lemma plain_char_comp_lower [simp]: "plain_char \<circ> lower_char = plain_char"
  by (rule ext) (simp add: plain_char_def)

lemma dot_in_lower [simp]: "CHR ''.'' \<in> lower_char ` A \<longleftrightarrow> CHR ''.'' \<in> A"
  by (auto simp add: image_iff) (metis lower_char_eq_dot)+

lemma emailRegex_test_toLowerCase [simp]:
  "emailRegex_test (toLowerCase s) = emailRegex_test s"
proof -
  define r where "r = dropWhile plain_char s"
  have tw: "(takeWhile plain_char (toLowerCase s) = []) = (takeWhile plain_char s = [])"
    by (simp add: toLowerCase_def takeWhile_map)
  have dw: "dropWhile plain_char (toLowerCase s) = map lower_char r"
    by (simp add: toLowerCase_def dropWhile_map r_def)
  have left: "emailRegex_test (toLowerCase s) =
      (takeWhile plain_char s \<noteq> [] \<and>
       (case map lower_char r of
          [] \<Rightarrow> False
        | c # d \<Rightarrow> c = CHR ''@'' \<and> list_all plain_char d \<and> CHR ''.'' \<in> set (butlast (tl d))))"
    by (simp only: emailRegex_test_def tw dw)
  have right: "emailRegex_test s =
      (takeWhile plain_char s \<noteq> [] \<and>
       (case r of
          [] \<Rightarrow> False
        | c # d \<Rightarrow> c = CHR ''@'' \<and> list_all plain_char d \<and> CHR ''.'' \<in> set (butlast (tl d))))"
    by (simp only: emailRegex_test_def r_def)
  show ?thesis
  proof (cases r)
    case Nil
    then show ?thesis by (simp add: left right)
  next
    case (Cons c d)
    have "set (butlast (tl (map lower_char d))) = lower_char ` set (butlast (tl d))"
      by (simp add: map_tl [symmetric] map_butlast [symmetric])
    with Cons show ?thesis
      by (simp add: left right list_all_iff plain_char_def)
  qed
qed

section \<open>Facts about the domain object\<close>

lemma js_or_right_Nil [simp]: "js_or a [] = a"
  by (simp add: js_or_def)

lemma js_or_nonempty [simp]: "a \<noteq> [] \<Longrightarrow> js_or a b = a"
  by (simp add: js_or_def)

lemma generateId_nonempty [simp]: "generateId e \<noteq> []"
  by (simp add: generateId_def)

lemma id_c_Contacto_nonempty [simp]: "id_c (Contacto e data) \<noteq> []"
  by (simp add: Contacto_def js_or_def)

lemma instancia_Contacto: "entorno_ok e \<Longrightarrow> instancia (Contacto e data)"
  by (simp add: instancia_def Contacto_def js_or_def entorno_ok_def)

lemma Contacto_instancia [simp]: "instancia d \<Longrightarrow> Contacto e d = d"
  by (simp add: instancia_def Contacto_def)

lemma fromJSON_instancia [simp]: "instancia d \<Longrightarrow> fromJSON e d = d"
  by (simp add: fromJSON_def)

lemma id_c_fromJSON [simp]: "id_c d \<noteq> [] \<Longrightarrow> id_c (fromJSON e d) = id_c d"
  by (simp add: fromJSON_def Contacto_def)

lemma id_c_toJSON [simp]: "id_c (toJSON c) = id_c c"
  by (simp add: toJSON_def)

lemma id_c_touch [simp]: "id_c (touch ahora c) = id_c c"
  by (simp add: touch_def)

lemma instancia_toJSON [simp]: "instancia (toJSON c) = instancia c"
  by (simp add: instancia_def toJSON_def)

lemma toJSON_canonico [simp]: "canonico d \<Longrightarrow> toJSON d = d"
  by (simp add: canonico_def toJSON_def)

lemma canonico_instancia: "canonico d \<Longrightarrow> instancia d"
  by (simp add: canonico_def)

lemma nombre_toJSON [simp]: "nombre (toJSON c) = trim (nombre c)"
  and email_toJSON [simp]: "email (toJSON c) = toLowerCase (trim (email c))"
  and telefono_toJSON [simp]: "telefono (toJSON c) = trim (telefono c)"
  and asunto_toJSON [simp]: "asunto (toJSON c) = asunto c"
  and mensaje_toJSON [simp]: "mensaje (toJSON c) = trim (mensaje c)"
  and preferenciaContacto_toJSON [simp]: "preferenciaContacto (toJSON c) = preferenciaContacto c"
  and aceptaTerminos_toJSON [simp]: "aceptaTerminos (toJSON c) = aceptaTerminos c"
  and fechaCreacion_toJSON [simp]: "fechaCreacion (toJSON c) = fechaCreacion c"
  and fechaActualizacion_toJSON [simp]: "fechaActualizacion (toJSON c) = fechaActualizacion c"
  by (simp_all add: toJSON_def)

lemma empty_or_trim_empty: "(x = [] \<or> trim x = []) = (trim x = [])"
  by auto

lemma nonempty_and_trim: "(x \<noteq> [] \<and> trim x \<noteq> []) = (trim x \<noteq> [])"
  by auto

lemma validate_toJSON [simp]: "validate (toJSON c) = validate c"
proof -
  have m1: "(trim (mensaje c) \<noteq> [] \<and> 1000 < length (trim (mensaje c))) =
            (mensaje c \<noteq> [] \<and> 1000 < length (trim (mensaje c)))"
    by auto
  show ?thesis
    unfolding validate_def
    by (simp only: nombre_toJSON email_toJSON telefono_toJSON asunto_toJSON mensaje_toJSON
        preferenciaContacto_toJSON aceptaTerminos_toJSON trim_idem trim_toLowerCase
        emailRegex_test_toLowerCase length_toLowerCase length_0_conv length_greater_0_conv
        toLowerCase_Nil_iff empty_or_trim_empty nonempty_and_trim m1 disj_absorb conj_absorb)
qed

lemma canonico_toJSON: "instancia c \<Longrightarrow> canonico (toJSON c)"
  by (simp add: canonico_def nombre_toJSON email_toJSON telefono_toJSON mensaje_toJSON
      trim_toLowerCase)

lemma canonico_iff: "canonico d \<longleftrightarrow> (\<exists>c. instancia c \<and> d = toJSON c)"
proof
  assume "canonico d"
  then have "instancia d \<and> d = toJSON d"
    by (simp add: canonico_instancia)
  then show "\<exists>c. instancia c \<and> d = toJSON c" ..
next
  assume "\<exists>c. instancia c \<and> d = toJSON c"
  then show "canonico d" by (auto intro: canonico_toJSON)
qed

lemma isValid_toJSON [simp]: "isValid (toJSON c) = isValid c"
  by (simp add: isValid_def)

lemma validate_touch [simp]: "validate (touch ahora c) = validate c"
  by (simp add: validate_def touch_def)

lemma isValid_touch [simp]: "isValid (touch ahora c) = isValid c"
  by (simp add: isValid_def)

lemma instancia_touch: "instancia c \<Longrightarrow> ahora \<noteq> [] \<Longrightarrow> instancia (touch ahora c)"
  by (simp add: instancia_def touch_def)

lemma isValid_iff: "isValid c \<longleftrightarrow> validate c = []"
  by (simp add: isValid_def)

section \<open>Facts about reading the store\<close>

lemma length_leer [simp]: "length (leer E ds) = length ds"
  by (simp add: leer_def)

lemma leer_Nil [simp]: "leer E [] = []"
  by (simp add: leer_def)

lemma leer_nth: "k < length ds \<Longrightarrow> leer E ds ! k = fromJSON (E k) (ds ! k)"
  by (simp add: leer_def nth_enumerate_eq)

lemma leer_instancia: "list_all instancia ds \<Longrightarrow> leer E ds = ds"
  by (rule nth_equalityI) (simp_all add: leer_nth list_all_length)

lemma map_id_c_leer:
  "list_all (\<lambda>d. id_c d \<noteq> []) ds \<Longrightarrow> map id_c (leer E ds) = map id_c ds"
  by (rule nth_equalityI) (simp_all add: leer_nth list_all_length)

lemma list_all_id_c_leer [simp]: "list_all (\<lambda>d. id_c d \<noteq> []) (leer E ds)"
  by (simp add: list_all_length leer_nth fromJSON_def)

lemma getAll_Arreglo_leer:
  "almacen s = Some (Arreglo ds) \<Longrightarrow> getAll E s = (leer E ds, s)"
  by (simp add: getAll_Arreglo leer_def)

lemma guardados_Arreglo [simp]: "almacen s = Some (Arreglo ds) \<Longrightarrow> guardados s = ds"
  by (simp add: guardados_def)

lemma fst_getAll: "fst (getAll E s) = leer E (guardados s)"
proof (cases "almacen s")
  case None
  then show ?thesis by (simp add: guardados_def)
next
  case (Some t)
  then show ?thesis
    by (cases t) (simp_all add: guardados_def getAll_reset getAll_Arreglo_leer)
qed

lemma guardados_snd_getAll [simp]: "guardados (snd (getAll E s)) = guardados s"
proof (cases "almacen s")
  case None
  then show ?thesis by simp
next
  case (Some t)
  then show ?thesis
    by (cases t) (simp_all add: guardados_def getAll_reset getAll_Arreglo_leer)
qed

lemma almacen_snd_getAll:
  "almacen (snd (getAll E s)) =
     (if almacen s = Some Vacio \<or> almacen s = Some Ilegible \<or> almacen s = Some NoArreglo
      then Some (Arreglo [])
      else almacen s)"
proof (cases "almacen s")
  case None
  then show ?thesis by simp
next
  case (Some t)
  then show ?thesis
    by (cases t) (simp_all add: getAll_reset getAll_Arreglo_leer)
qed

lemma getAll_again [simp]: "fst (getAll E' (snd (getAll E s))) = fst (getAll E' s)"
  by (simp add: fst_getAll)

lemma guardados_console [simp]: "guardados (console n m s) = guardados s"
  by (simp add: guardados_def console_def)

lemma almacen_console [simp]: "almacen (console n m s) = almacen s"
  by (simp add: console_def)

lemma guardados_saveToStorage [simp]: "guardados (saveToStorage cs s) = map toJSON cs"
  by (simp add: guardados_def saveToStorage_def setItem_def)

lemma almacen_saveToStorage [simp]:
  "almacen (saveToStorage cs s) = Some (Arreglo (map toJSON cs))"
  by (simp add: saveToStorage_def setItem_def)

section \<open>The outcomes of add, update and remove\<close>

lemma find_None_list_ex: "find P xs = None \<longleftrightarrow> \<not> list_ex P xs"
  by (auto simp add: find_None_iff list_ex_iff)

lemma leer_nonempty_Arreglo:
  "leer E (guardados s) \<noteq> [] \<Longrightarrow> almacen s = Some (Arreglo (guardados s))"
  by (cases "almacen s"; simp add: guardados_def split: json_text.splits)

lemma getAll_keeps_when_read:
  "fst (getAll E s) \<noteq> [] \<Longrightarrow> snd (getAll E s) = s"
proof -
  assume "fst (getAll E s) \<noteq> []"
  then have "leer E (guardados s) \<noteq> []"
    by (simp add: fst_getAll)
  then have "almacen s = Some (Arreglo (guardados s))"
    by (rule leer_nonempty_Arreglo)
  then have "getAll E s = (leer E (guardados s), s)"
    by (rule getAll_Arreglo_leer)
  then show ?thesis by simp
qed

lemma add_invalid:
  "\<not> isValid c \<Longrightarrow>
     add E1 E2 c s = (Inl (ContactoInvalido (validate c)), console LogError ErrorAlAgregar s)"
  by (simp add: add_def)

lemma add_duplicate:
  assumes "isValid c" and "list_ex (\<lambda>x. id_c x = id_c c) (fst (getAll E1 s))"
  shows "add E1 E2 c s = (Inl IdDuplicado, console LogError ErrorAlAgregar s)"
proof -
  from assms(2) have "fst (getAll E1 s) \<noteq> []" by auto
  then have same: "snd (getAll E1 s) = s" by (rule getAll_keeps_when_read)
  from assms(2) obtain x where "find (\<lambda>x. id_c x = id_c c) (fst (getAll E1 s)) = Some x"
    by (cases "find (\<lambda>x. id_c x = id_c c) (fst (getAll E1 s))")
       (simp_all add: find_None_list_ex)
  with assms(1) same show ?thesis
    by (simp add: add_def getById_def case_prod_beta)
qed

lemma add_ok:
  assumes "isValid c" and "\<not> list_ex (\<lambda>x. id_c x = id_c c) (fst (getAll E1 s))"
  shows "fst (add E1 E2 c s) = Inr True"
    and "almacen (snd (add E1 E2 c s)) = Some (Arreglo (map toJSON (fst (getAll E2 s) @ [c])))"
proof -
  from assms(2) have none: "find (\<lambda>x. id_c x = id_c c) (fst (getAll E1 s)) = None"
    by (simp add: find_None_list_ex)
  with assms(1) show "fst (add E1 E2 c s) = Inr True"
    by (simp add: add_def getById_def case_prod_beta)
  from assms(1) none
  show "almacen (snd (add E1 E2 c s)) = Some (Arreglo (map toJSON (fst (getAll E2 s) @ [c])))"
    by (simp add: add_def getById_def case_prod_beta)
qed

lemma update_invalid:
  "\<not> isValid c \<Longrightarrow>
     update E ahora c s =
       (Inl (ContactoInvalido (validate c)), console LogError ErrorAlActualizar s)"
  by (simp add: update_def)

lemma update_missing:
  assumes "isValid c" and "findIndex (\<lambda>x. id_c x = id_c c) (fst (getAll E s)) = None"
  shows "update E ahora c s =
           (Inl NoEncontrado, console LogError ErrorAlActualizar (snd (getAll E s)))"
  using assms by (simp add: update_def case_prod_beta)

lemma update_found:
  assumes "isValid c" and "findIndex (\<lambda>x. id_c x = id_c c) (fst (getAll E s)) = Some k"
  shows "update E ahora c s =
           (Inr True,
            console LogInfo ContactoActualizado
              (saveToStorage ((fst (getAll E s))[k := touch ahora c]) s))"
proof -
  from assms(2) have "fst (getAll E s) \<noteq> []" by auto
  then have "snd (getAll E s) = s" by (rule getAll_keeps_when_read)
  with assms show ?thesis by (simp add: update_def case_prod_beta)
qed

lemma remove_missing:
  assumes "findIndex (\<lambda>x. id_c x = i) (fst (getAll E s)) = None"
  shows "remove E i s = (Inl NoEncontrado, console LogError ErrorAlEliminar (snd (getAll E s)))"
  using assms by (simp add: remove_def case_prod_beta)

lemma remove_found:
  assumes "findIndex (\<lambda>x. id_c x = i) (fst (getAll E s)) = Some k"
  shows "remove E i s =
           (Inr True,
            console LogInfo ContactoEliminado (saveToStorage (splice1 k (fst (getAll E s))) s))"
proof -
  from assms have "fst (getAll E s) \<noteq> []" by auto
  then have "snd (getAll E s) = s" by (rule getAll_keeps_when_read)
  with assms show ?thesis by (simp add: remove_def case_prod_beta)
qed

lemma existsByEmail_eq:
  "existsByEmail E m None s =
     (list_ex (\<lambda>x. toLowerCase (email x) = toLowerCase m) (fst (getAll E s)), snd (getAll E s))"
  by (simp add: existsByEmail_def case_prod_beta)

lemma guardarContacto_invalid:
  "validateForm e1 datos \<noteq> [] \<Longrightarrow>
     guardarContacto e1 e2 Ee E1 E2 E3 datos s =
       (Inl FormularioInvalido, console LogError ErrorEnGuardarContacto s)"
  by (simp add: guardarContacto_def)

lemma guardarContacto_email:
  assumes "validateForm e1 datos = []"
    and "list_ex (\<lambda>x. toLowerCase (email x) = toLowerCase (email (Contacto e2 datos)))
           (fst (getAll Ee s))"
  shows "guardarContacto e1 e2 Ee E1 E2 E3 datos s =
           (Inl EmailDuplicado, console LogError ErrorEnGuardarContacto s)"
proof -
  from assms(2) have "fst (getAll Ee s) \<noteq> []" by auto
  then have "snd (getAll Ee s) = s" by (rule getAll_keeps_when_read)
  with assms show ?thesis
    by (simp add: guardarContacto_def existsByEmail_eq Let_def)
qed

section \<open>The example data, evaluated\<close>

lemma validate_ana: "validate ana = []"
  by code_simp

lemma validate_ana_guardada: "validate ana_guardada = []"
  by code_simp

lemma validate_ana_bis: "validate ana_bis = []"
  by code_simp

lemma validate_beto: "validate beto = []"
  by code_simp

lemma validate_sin_terminos: "validate sin_terminos = [TerminosNoAceptados]"
  by code_simp

lemma toJSON_ana: "toJSON ana = ana_guardada"
  by code_simp

lemma toJSON_ana_bis: "toJSON ana_bis = ana_bis_guardada"
  by code_simp

lemma toJSON_beto: "toJSON beto = beto"
  by code_simp

lemma instancia_examples:
  "instancia ana" "instancia ana_guardada" "instancia ana_bis" "instancia ana_bis_guardada"
  "instancia beto" "instancia sin_terminos"
  by (simp_all add: instancia_def ana_def ana_guardada_def ana_bis_def ana_bis_guardada_def
      beto_def sin_terminos_def)

lemma canonico_examples: "canonico ana_guardada" "canonico ana_bis_guardada" "canonico beto"
  using canonico_toJSON [of ana] canonico_toJSON [of ana_bis] canonico_toJSON [of beto]
  by (simp_all add: instancia_examples toJSON_ana toJSON_ana_bis toJSON_beto)

lemma id_examples:
  "id_c ana = ''contact_1_a''" "id_c ana_guardada = ''contact_1_a''"
  "id_c ana_bis = ''contact_2_b''" "id_c ana_bis_guardada = ''contact_2_b''"
  "id_c beto = ''contact_4_d''" "id_c sin_terminos = ''contact_3_c''"
  by (simp_all add: ana_def ana_guardada_def ana_bis_def ana_bis_guardada_def beto_def
      sin_terminos_def)

lemma email_lower_examples:
  "toLowerCase (email ana_guardada) = ''ana@x.com''"
  "toLowerCase (email ana_bis) = ''ana@x.com''"
  "toLowerCase (email beto) = ''beto@y.org''"
  by code_simp+

lemma getAll_record:
  "getAll E \<lparr>almacen = Some (Arreglo ds), consola = k\<rparr> =
     (leer E ds, \<lparr>almacen = Some (Arreglo ds), consola = k\<rparr>)"
  by (simp add: getAll_Arreglo_leer)

lemma getAll_s_ana: "getAll E s_ana = ([ana_guardada], s_ana)"
  by (simp add: getAll_record s_ana_def leer_instancia instancia_examples)

lemma getAll_s_vacio: "getAll E s_vacio = ([], s_vacio)"
  by (simp add: getAll_record s_vacio_def)

section \<open>C9: a stored text that does not deserialize\<close>

text \<open>
  C9. When the stored text makes the \<^verbatim>\<open>try\<close> block of \<^verbatim>\<open>getAll\<close> throw (a
  SyntaxError of \<^verbatim>\<open>JSON.parse\<close>, or a value that is not an array), the read returns
  the empty list and no error, the stored text is replaced by the empty array without
  any look at the old one, and the console gets the error line and the warning; the next
  read returns the empty list and changes nothing.
\<close>

theorem getAll_corrupt_resets:
  assumes "almacen s = Some Vacio \<or> almacen s = Some Ilegible \<or> almacen s = Some NoArreglo"
  shows "(\<exists>err. getAll_try E s = Inl err) \<and>
         getAll E s =
           ([], s\<lparr>almacen := Some (Arreglo []),
                   consola := consola s @ [(LogError, ErrorAlObtenerContactos),
                                           (LogWarn, Reinicializando)]\<rparr>) \<and>
         getAll E' (snd (getAll E s)) = ([], snd (getAll E s))"
proof -
  from assms have thrown: "\<exists>err. getAll_try E s = Inl err"
    by (auto simp add: getAll_try_def)
  have reset: "getAll E s =
      ([], s\<lparr>almacen := Some (Arreglo []),
              consola := consola s @ [(LogError, ErrorAlObtenerContactos),
                                      (LogWarn, Reinicializando)]\<rparr>)"
    using assms by (rule getAll_reset)
  have again: "getAll E' (snd (getAll E s)) = ([], snd (getAll E s))"
    by (simp add: reset getAll_Arreglo)
  from thrown reset again show ?thesis by blast
qed

theorem getAll_corrupt_resets_witness:
  "getAll E0 s_ilegible =
     ([], \<lparr>almacen = Some (Arreglo []),
           consola = [(LogError, ErrorAlObtenerContactos), (LogWarn, Reinicializando)]\<rparr>)"
  using getAll_corrupt_resets [of s_ilegible E0 E0] by (simp add: s_ilegible_def)

section \<open>C5: clear\<close>

lemma clear_empties:
  "fst (clear E s) = Inr True \<and> almacen (snd (clear E s)) = Some (Arreglo [])"
  by (simp add: clear_def setItem_def console_def split: prod.splits)

lemma clear_twice:
  "fst (clear E' (snd (clear E s))) = Inr True \<and>
   almacen (snd (clear E' (snd (clear E s)))) = Some (Arreglo [])"
  by (rule clear_empties)

lemma clear_ls_empties:
  "clear_ls s = (Inr (), \<lparr>repo = [], localStorage = Some (SfArreglo [])\<rparr>)"
  by (simp add: clear_ls_def guardarAlmacenamiento_def)

lemma clear_ls_twice:
  "clear_ls (snd (clear_ls s)) = (Inr (), \<lparr>repo = [], localStorage = Some (SfArreglo [])\<rparr>)"
  by (rule clear_ls_empties)

text \<open>
  C5. In the in-memory repository \<^verbatim>\<open>clear\<close> throws a TypeError on every call and
  leaves the array as it was; \<^verbatim>\<open>getAll\<close> returns the same records afterwards. (The
  localStorage repositories do empty the collection, twice in a row as well:
  \<open>clear_twice\<close>, \<open>clear_ls_twice\<close>.)
\<close>

theorem clear_mem_throws:
  "fst (clear_mem s) = Inl TypeError \<and> fst (getAll_mem (snd (clear_mem s))) = repo s"
  by (simp add: clear_mem_def getAll_mem_def)

section \<open>C4: remove\<close>

lemma cargar_SfArreglo [simp]:
  "localStorage s = Some (SfArreglo ds) \<Longrightarrow> cargarAlmacenamiento s = Inr (s\<lparr>repo := ds\<rparr>)"
  by (simp add: cargarAlmacenamiento_def)

text \<open>
  C4. The earlier localStorage repository holds the records with identifiers 1, 2, 3.
  With global bindings for \<^verbatim>\<open>indice\<close> and \<^verbatim>\<open>i\<close>, \<^verbatim>\<open>remove(3)\<close> deletes
  the record 2 and keeps 3, and \<^verbatim>\<open>remove(1)\<close> deletes nothing and returns false;
  without such bindings \<^verbatim>\<open>remove\<close> throws a ReferenceError.
\<close>

theorem remove_ls0_wrong_record:
  "remove_ls0 True (IdNum 3) s_tres =
     (Inr True, \<lparr>repo = [k1, k3], localStorage = Some (SfArreglo [k1, k3])\<rparr>) \<and>
   remove_ls0 True (IdNum 1) s_tres = (Inr False, s_tres) \<and>
   fst (remove_ls0 False (IdNum 3) s_tres) = Inl ReferenceError"
  by (simp add: remove_ls0_def indiceElemento_ls0_def s_tres_def bucle_findIndex
      guardarAlmacenamiento_def splice1_def k1_def k2_def k3_def)

section \<open>C1: what add rejects\<close>

lemma email_Contacto [simp]: "email (Contacto e data) = email data"
  by (simp add: Contacto_def)

lemma almacen_updateStorageStats:
  "almacen s = Some (Arreglo ds) \<Longrightarrow> almacen (updateStorageStats E s) = Some (Arreglo ds)"
  by (simp add: updateStorageStats_def getAll_Arreglo_leer)

lemma add_result_cases:
  "fst (add E1 E2 c s) = Inr True \<and> (\<exists>ds. almacen (snd (add E1 E2 c s)) = Some (Arreglo ds)) \<or>
   (\<exists>err. fst (add E1 E2 c s) = Inl err)"
proof (cases "isValid c")
  case False
  then show ?thesis by (simp add: add_invalid)
next
  case True
  show ?thesis
  proof (cases "list_ex (\<lambda>x. id_c x = id_c c) (fst (getAll E1 s))")
    case True
    with \<open>isValid c\<close> show ?thesis by (simp add: add_duplicate)
  next
    case False
    with \<open>isValid c\<close> show ?thesis by (simp add: add_ok)
  qed
qed

lemma guardarContacto_passes_on:
  assumes "validateForm e1 datos = []"
    and "\<not> list_ex (\<lambda>x. toLowerCase (email x) = toLowerCase (email datos)) (fst (getAll Ee s))"
  shows "fst (guardarContacto e1 e2 Ee E1 E2 E3 datos s) =
           fst (add E1 E2 (Contacto e2 datos) (snd (getAll Ee s)))"
    and "almacen (snd (guardarContacto e1 e2 Ee E1 E2 E3 datos s)) =
           almacen (snd (add E1 E2 (Contacto e2 datos) (snd (getAll Ee s))))"
proof -
  define s1 where "s1 = snd (getAll Ee s)"
  define r where "r = add E1 E2 (Contacto e2 datos) s1"
  have g: "guardarContacto e1 e2 Ee E1 E2 E3 datos s =
      (case r of
         (Inl err, s2) \<Rightarrow> (Inl err, console LogError ErrorEnGuardarContacto s2)
       | (Inr ok, s2) \<Rightarrow> (Inr True, updateStorageStats E3 s2))"
    using assms by (simp add: guardarContacto_def existsByEmail_eq Let_def s1_def r_def)
  from add_result_cases [of E1 E2 "Contacto e2 datos" s1]
  consider ds where "fst r = Inr True" "almacen (snd r) = Some (Arreglo ds)"
    | err where "fst r = Inl err"
    unfolding r_def by blast
  then have "fst (guardarContacto e1 e2 Ee E1 E2 E3 datos s) = fst r \<and>
             almacen (snd (guardarContacto e1 e2 Ee E1 E2 E3 datos s)) = almacen (snd r)"
  proof cases
    case 1
    then show ?thesis
      by (cases r) (simp add: g almacen_updateStorageStats)
  next
    case 2
    then show ?thesis
      by (cases r) (simp add: g)
  qed
  then show "fst (guardarContacto e1 e2 Ee E1 E2 E3 datos s) =
           fst (add E1 E2 (Contacto e2 datos) (snd (getAll Ee s)))"
    and "almacen (snd (guardarContacto e1 e2 Ee E1 E2 E3 datos s)) =
           almacen (snd (add E1 E2 (Contacto e2 datos) (snd (getAll Ee s))))"
    by (simp_all add: r_def s1_def)
qed

text \<open>
  C1, as the code has it. \<^verbatim>\<open>ContactRepository.add\<close> rejects, and leaves the stored text
  as it is, when the record fails validation or when a stored record has the same
  identifier; it does not look at emails. Otherwise it appends the record and writes the
  whole collection again. The email is checked one layer up: \<^verbatim>\<open>guardarContacto\<close>
  rejects, with the stored text unchanged, when the form data fail validation or when a
  stored record has the same email up to letter case, and otherwise hands the new
  instance to \<^verbatim>\<open>add\<close>.
\<close>

theorem add_rejects_or_appends:
  "(\<not> isValid c \<longrightarrow>
      fst (add E1 E2 c s) = Inl (ContactoInvalido (validate c)) \<and>
      almacen (snd (add E1 E2 c s)) = almacen s) \<and>
   (isValid c \<and> list_ex (\<lambda>x. id_c x = id_c c) (fst (getAll E1 s)) \<longrightarrow>
      fst (add E1 E2 c s) = Inl IdDuplicado \<and>
      almacen (snd (add E1 E2 c s)) = almacen s) \<and>
   (isValid c \<and> \<not> list_ex (\<lambda>x. id_c x = id_c c) (fst (getAll E1 s)) \<longrightarrow>
      fst (add E1 E2 c s) = Inr True \<and>
      almacen (snd (add E1 E2 c s)) = Some (Arreglo (map toJSON (fst (getAll E2 s) @ [c])))) \<and>
   (validateForm e1 datos \<noteq> [] \<longrightarrow>
      fst (guardarContacto e1 e2 Ee E1 E2 E3 datos s) = Inl FormularioInvalido \<and>
      almacen (snd (guardarContacto e1 e2 Ee E1 E2 E3 datos s)) = almacen s) \<and>
   (validateForm e1 datos = [] \<and>
    list_ex (\<lambda>x. toLowerCase (email x) = toLowerCase (email datos)) (fst (getAll Ee s)) \<longrightarrow>
      fst (guardarContacto e1 e2 Ee E1 E2 E3 datos s) = Inl EmailDuplicado \<and>
      almacen (snd (guardarContacto e1 e2 Ee E1 E2 E3 datos s)) = almacen s) \<and>
   (validateForm e1 datos = [] \<and>
    \<not> list_ex (\<lambda>x. toLowerCase (email x) = toLowerCase (email datos)) (fst (getAll Ee s)) \<longrightarrow>
      fst (guardarContacto e1 e2 Ee E1 E2 E3 datos s) =
        fst (add E1 E2 (Contacto e2 datos) (snd (getAll Ee s))) \<and>
      almacen (snd (guardarContacto e1 e2 Ee E1 E2 E3 datos s)) =
        almacen (snd (add E1 E2 (Contacto e2 datos) (snd (getAll Ee s)))))"
proof (intro conjI impI)
  assume "\<not> isValid c"
  then have "add E1 E2 c s =
      (Inl (ContactoInvalido (validate c)), console LogError ErrorAlAgregar s)"
    by (rule add_invalid)
  then show "fst (add E1 E2 c s) = Inl (ContactoInvalido (validate c))"
    and "almacen (snd (add E1 E2 c s)) = almacen s"
    by simp_all
next
  assume "isValid c \<and> list_ex (\<lambda>x. id_c x = id_c c) (fst (getAll E1 s))"
  then have "add E1 E2 c s = (Inl IdDuplicado, console LogError ErrorAlAgregar s)"
    by (simp add: add_duplicate)
  then show "fst (add E1 E2 c s) = Inl IdDuplicado"
    and "almacen (snd (add E1 E2 c s)) = almacen s"
    by simp_all
next
  assume h: "isValid c \<and> \<not> list_ex (\<lambda>x. id_c x = id_c c) (fst (getAll E1 s))"
  then show "fst (add E1 E2 c s) = Inr True"
    by (simp add: add_ok)
  from h show "almacen (snd (add E1 E2 c s)) =
      Some (Arreglo (map toJSON (fst (getAll E2 s) @ [c])))"
    by (simp add: add_ok)
next
  assume "validateForm e1 datos \<noteq> []"
  then have "guardarContacto e1 e2 Ee E1 E2 E3 datos s =
      (Inl FormularioInvalido, console LogError ErrorEnGuardarContacto s)"
    by (rule guardarContacto_invalid)
  then show "fst (guardarContacto e1 e2 Ee E1 E2 E3 datos s) = Inl FormularioInvalido"
    and "almacen (snd (guardarContacto e1 e2 Ee E1 E2 E3 datos s)) = almacen s"
    by simp_all
next
  assume "validateForm e1 datos = [] \<and>
    list_ex (\<lambda>x. toLowerCase (email x) = toLowerCase (email datos)) (fst (getAll Ee s))"
  then have "guardarContacto e1 e2 Ee E1 E2 E3 datos s =
      (Inl EmailDuplicado, console LogError ErrorEnGuardarContacto s)"
    by (simp add: guardarContacto_email)
  then show "fst (guardarContacto e1 e2 Ee E1 E2 E3 datos s) = Inl EmailDuplicado"
    and "almacen (snd (guardarContacto e1 e2 Ee E1 E2 E3 datos s)) = almacen s"
    by simp_all
next
  assume h: "validateForm e1 datos = [] \<and>
    \<not> list_ex (\<lambda>x. toLowerCase (email x) = toLowerCase (email datos)) (fst (getAll Ee s))"
  then show "fst (guardarContacto e1 e2 Ee E1 E2 E3 datos s) =
        fst (add E1 E2 (Contacto e2 datos) (snd (getAll Ee s)))"
    by (simp add: guardarContacto_passes_on)
  from h show "almacen (snd (guardarContacto e1 e2 Ee E1 E2 E3 datos s)) =
        almacen (snd (add E1 E2 (Contacto e2 datos) (snd (getAll Ee s))))"
    by (simp add: guardarContacto_passes_on)
qed

lemma add_ana_bis:
  "add E0 E0 ana_bis s_ana =
     (Inr True,
      \<lparr>almacen = Some (Arreglo [ana_guardada, ana_bis_guardada]),
       consola = [(LogInfo, ContactoAgregado)]\<rparr>)"
  by (simp add: add_def isValid_iff validate_ana_bis getById_def getAll_s_ana id_examples
      saveToStorage_def setItem_def console_def canonico_examples toJSON_ana_bis)
     (simp add: s_ana_def)

text \<open>
  C1 as stated fails on \<^verbatim>\<open>ContactRepository.add\<close>: the store holds a record with the
  email \<^verbatim>\<open>ana@x.com\<close>, and \<^verbatim>\<open>add\<close> accepts a valid record with another
  identifier and the email \<^verbatim>\<open>ANA@x.com\<close>.
\<close>

theorem add_same_email_counterexample:
  "list_ex (\<lambda>x. toLowerCase (email x) = toLowerCase (email ana_bis)) (fst (getAll E0 s_ana)) \<and>
   add E0 E0 ana_bis s_ana =
     (Inr True,
      \<lparr>almacen = Some (Arreglo [ana_guardada, ana_bis_guardada]),
       consola = [(LogInfo, ContactoAgregado)]\<rparr>)"
  by (simp add: add_ana_bis getAll_s_ana email_lower_examples)

theorem add_rejects_or_appends_witness:
  "fst (add E0 E0 sin_terminos s_ana) = Inl (ContactoInvalido [TerminosNoAceptados]) \<and>
   almacen (snd (add E0 E0 sin_terminos s_ana)) = Some (Arreglo [ana_guardada]) \<and>
   fst (add E0 E0 ana s_ana) = Inl IdDuplicado \<and>
   almacen (snd (add E0 E0 ana s_ana)) = Some (Arreglo [ana_guardada]) \<and>
   fst (add E0 E0 ana_bis s_ana) = Inr True \<and>
   almacen (snd (add E0 E0 ana_bis s_ana)) = Some (Arreglo [ana_guardada, ana_bis_guardada]) \<and>
   fst (guardarContacto e0 e0 E0 E0 E0 E0 sin_terminos s_ana) = Inl FormularioInvalido \<and>
   almacen (snd (guardarContacto e0 e0 E0 E0 E0 E0 sin_terminos s_ana)) =
     Some (Arreglo [ana_guardada]) \<and>
   fst (guardarContacto e0 e0 E0 E0 E0 E0 ana_bis s_ana) = Inl EmailDuplicado \<and>
   almacen (snd (guardarContacto e0 e0 E0 E0 E0 E0 ana_bis s_ana)) =
     Some (Arreglo [ana_guardada]) \<and>
   fst (guardarContacto e0 e0 E0 E0 E0 E0 beto s_ana) = Inr True \<and>
   almacen (snd (guardarContacto e0 e0 E0 E0 E0 E0 beto s_ana)) =
     Some (Arreglo [ana_guardada, beto])"
proof -
  have inv: "\<not> isValid sin_terminos" "validate sin_terminos = [TerminosNoAceptados]"
    by (simp_all add: isValid_iff validate_sin_terminos)
  have dup: "isValid ana \<and> list_ex (\<lambda>x. id_c x = id_c ana) (fst (getAll E0 s_ana))"
    by (simp add: isValid_iff validate_ana getAll_s_ana id_examples)
  have new: "isValid ana_bis \<and> \<not> list_ex (\<lambda>x. id_c x = id_c ana_bis) (fst (getAll E0 s_ana))"
    by (simp add: isValid_iff validate_ana_bis getAll_s_ana id_examples)
  have form_bad: "validateForm e0 sin_terminos \<noteq> []"
    by (simp add: validateForm_def instancia_examples validate_sin_terminos)
  have form_dup: "validateForm e0 ana_bis = [] \<and>
      list_ex (\<lambda>x. toLowerCase (email x) = toLowerCase (email ana_bis)) (fst (getAll E0 s_ana))"
    by (simp add: validateForm_def instancia_examples validate_ana_bis getAll_s_ana
        email_lower_examples)
  have form_new: "validateForm e0 beto = [] \<and>
      \<not> list_ex (\<lambda>x. toLowerCase (email x) = toLowerCase (email beto)) (fst (getAll E0 s_ana))"
    by (simp add: validateForm_def instancia_examples validate_beto getAll_s_ana
        email_lower_examples)
  have add_beto: "add E0 E0 beto s_ana =
      (Inr True,
       \<lparr>almacen = Some (Arreglo [ana_guardada, beto]), consola = [(LogInfo, ContactoAgregado)]\<rparr>)"
    by (simp add: add_def isValid_iff validate_beto getById_def getAll_s_ana id_examples
        saveToStorage_def setItem_def console_def canonico_examples toJSON_beto)
       (simp add: s_ana_def)
  have store: "almacen s_ana = Some (Arreglo [ana_guardada])"
    by (simp add: s_ana_def)
  from add_rejects_or_appends [of sin_terminos E0 E0 s_ana e0 sin_terminos e0 E0 E0] inv form_bad
  have one: "fst (add E0 E0 sin_terminos s_ana) = Inl (ContactoInvalido [TerminosNoAceptados]) \<and>
      almacen (snd (add E0 E0 sin_terminos s_ana)) = Some (Arreglo [ana_guardada]) \<and>
      fst (guardarContacto e0 e0 E0 E0 E0 E0 sin_terminos s_ana) = Inl FormularioInvalido \<and>
      almacen (snd (guardarContacto e0 e0 E0 E0 E0 E0 sin_terminos s_ana)) =
        Some (Arreglo [ana_guardada])"
    by (simp add: store)
  from add_rejects_or_appends [of ana E0 E0 s_ana e0 ana_bis e0 E0 E0] dup form_dup
  have two: "fst (add E0 E0 ana s_ana) = Inl IdDuplicado \<and>
      almacen (snd (add E0 E0 ana s_ana)) = Some (Arreglo [ana_guardada]) \<and>
      fst (guardarContacto e0 e0 E0 E0 E0 E0 ana_bis s_ana) = Inl EmailDuplicado \<and>
      almacen (snd (guardarContacto e0 e0 E0 E0 E0 E0 ana_bis s_ana)) =
        Some (Arreglo [ana_guardada])"
    by (simp add: store)
  from add_rejects_or_appends [of ana_bis E0 E0 s_ana e0 beto e0 E0 E0] new form_new
  have three: "fst (add E0 E0 ana_bis s_ana) = Inr True \<and>
      almacen (snd (add E0 E0 ana_bis s_ana)) =
        Some (Arreglo [ana_guardada, ana_bis_guardada]) \<and>
      fst (guardarContacto e0 e0 E0 E0 E0 E0 beto s_ana) = Inr True \<and>
      almacen (snd (guardarContacto e0 e0 E0 E0 E0 E0 beto s_ana)) =
        Some (Arreglo [ana_guardada, beto])"
    by (simp add: getAll_s_ana canonico_examples toJSON_ana_bis instancia_examples add_beto)
  from one two three show ?thesis by simp
qed

section \<open>C3: update\<close>

lemma findIndex_length: "findIndex P xs = Some k \<Longrightarrow> k < length xs"
  by (simp add: findIndex_Some)

lemma fechas_touch [simp]:
  "fechaActualizacion (touch ahora c) = ahora" "fechaCreacion (touch ahora c) = fechaCreacion c"
  by (simp_all add: touch_def)

lemma toJSON_touch: "toJSON (touch ahora c) = (toJSON c)\<lparr>fechaActualizacion := ahora\<rparr>"
  by (simp add: toJSON_def touch_def)

text \<open>
  C3, as the code has it. \<^verbatim>\<open>ContactRepository.update\<close> rejects, with the stored
  collection unchanged, when the record fails validation or when no stored record has its
  identifier. Otherwise it puts the record in the place of the first stored record with
  that identifier, at whatever index \<open>k\<close>, zero included, with
  \<^verbatim>\<open>fechaActualizacion\<close> set to the clock reading \<open>ahora\<close> and
  \<^verbatim>\<open>fechaCreacion\<close> as the caller passed it, and writes the whole collection again.
  The new \<^verbatim>\<open>fechaActualizacion\<close> is greater than \<^verbatim>\<open>fechaCreacion\<close> exactly
  when the clock reading is later than that creation stamp.
\<close>

theorem update_replaces_in_place:
  "(\<not> isValid c \<longrightarrow>
      fst (update E ahora c s) = Inl (ContactoInvalido (validate c)) \<and>
      almacen (snd (update E ahora c s)) = almacen s) \<and>
   (isValid c \<and> findIndex (\<lambda>x. id_c x = id_c c) (fst (getAll E s)) = None \<longrightarrow>
      fst (update E ahora c s) = Inl NoEncontrado \<and>
      guardados (snd (update E ahora c s)) = guardados s) \<and>
   (isValid c \<and> findIndex (\<lambda>x. id_c x = id_c c) (fst (getAll E s)) = Some k \<longrightarrow>
      fst (update E ahora c s) = Inr True \<and>
      almacen (snd (update E ahora c s)) =
        Some (Arreglo (map toJSON ((fst (getAll E s))[k := touch ahora c]))) \<and>
      k < length (guardados s) \<and>
      guardados (snd (update E ahora c s)) ! k = toJSON (touch ahora c) \<and>
      fechaActualizacion (guardados (snd (update E ahora c s)) ! k) = ahora \<and>
      fechaCreacion (guardados (snd (update E ahora c s)) ! k) = fechaCreacion c \<and>
      (fechaCreacion (guardados (snd (update E ahora c s)) ! k)
         < fechaActualizacion (guardados (snd (update E ahora c s)) ! k)) =
        (fechaCreacion c < ahora))"
proof (intro conjI impI)
  assume "\<not> isValid c"
  then have "update E ahora c s =
      (Inl (ContactoInvalido (validate c)), console LogError ErrorAlActualizar s)"
    by (rule update_invalid)
  then show "fst (update E ahora c s) = Inl (ContactoInvalido (validate c))"
    and "almacen (snd (update E ahora c s)) = almacen s"
    by simp_all
next
  assume "isValid c \<and> findIndex (\<lambda>x. id_c x = id_c c) (fst (getAll E s)) = None"
  then have "update E ahora c s =
      (Inl NoEncontrado, console LogError ErrorAlActualizar (snd (getAll E s)))"
    by (simp add: update_missing)
  then show "fst (update E ahora c s) = Inl NoEncontrado"
    and "guardados (snd (update E ahora c s)) = guardados s"
    by simp_all
next
  assume h: "isValid c \<and> findIndex (\<lambda>x. id_c x = id_c c) (fst (getAll E s)) = Some k"
  then have eq: "update E ahora c s =
      (Inr True,
       console LogInfo ContactoActualizado
         (saveToStorage ((fst (getAll E s))[k := touch ahora c]) s))"
    by (simp add: update_found)
  from h have k: "k < length (fst (getAll E s))"
    by (auto dest: findIndex_length)
  then show "k < length (guardados s)"
    by (simp add: fst_getAll)
  from eq show "fst (update E ahora c s) = Inr True"
    by simp
  from eq show "almacen (snd (update E ahora c s)) =
      Some (Arreglo (map toJSON ((fst (getAll E s))[k := touch ahora c])))"
    by simp
  from eq k show stored: "guardados (snd (update E ahora c s)) ! k = toJSON (touch ahora c)"
    by simp
  then show "fechaActualizacion (guardados (snd (update E ahora c s)) ! k) = ahora"
    and "fechaCreacion (guardados (snd (update E ahora c s)) ! k) = fechaCreacion c"
    and "(fechaCreacion (guardados (snd (update E ahora c s)) ! k)
           < fechaActualizacion (guardados (snd (update E ahora c s)) ! k)) =
         (fechaCreacion c < ahora)"
    by simp_all
qed

lemma fechas_ana: "fechaCreacion ana = creada" "fechaActualizacion ana = creada"
  "fechaCreacion ana_guardada = creada" "fechaActualizacion ana_guardada = creada"
  by (simp_all add: ana_def ana_guardada_def creada_def)

lemma creada_despues: "creada < despues" "\<not> creada < creada"
  by (code_simp, simp)

lemma update_ana_same_clock:
  "update E0 creada ana s_ana =
     (Inr True,
      \<lparr>almacen = Some (Arreglo [ana_guardada]), consola = [(LogInfo, ContactoActualizado)]\<rparr>)"
proof -
  have "touch creada ana = ana"
    by (simp add: touch_def ana_def creada_def)
  then show ?thesis
    by (simp add: update_def isValid_iff validate_ana getAll_s_ana id_examples
        saveToStorage_def setItem_def console_def toJSON_ana)
       (simp add: s_ana_def)
qed

lemma validate_ana_sin_terminos: "validate ana_sin_terminos = [TerminosNoAceptados]"
  by code_simp

text \<open>
  C3 as stated fails on \<^verbatim>\<open>ContactRepository.update\<close> in two ways. The store holds
  Ana's record, at index 0. An update of it made at the clock reading of its creation
  succeeds and leaves \<^verbatim>\<open>fechaActualizacion\<close> equal to \<^verbatim>\<open>fechaCreacion\<close>, not
  greater; and an update with a record of the same identifier that fails validation is
  rejected although the record exists.
\<close>

theorem update_counterexample:
  "update E0 creada ana s_ana =
     (Inr True,
      \<lparr>almacen = Some (Arreglo [ana_guardada]), consola = [(LogInfo, ContactoActualizado)]\<rparr>) \<and>
   \<not> fechaCreacion ana_guardada < fechaActualizacion ana_guardada \<and>
   list_ex (\<lambda>x. id_c x = id_c ana_sin_terminos) (fst (getAll E0 s_ana)) \<and>
   update E0 despues ana_sin_terminos s_ana =
     (Inl (ContactoInvalido [TerminosNoAceptados]),
      \<lparr>almacen = Some (Arreglo [ana_guardada]), consola = [(LogError, ErrorAlActualizar)]\<rparr>)"
proof -
  have "update E0 despues ana_sin_terminos s_ana =
     (Inl (ContactoInvalido [TerminosNoAceptados]),
      \<lparr>almacen = Some (Arreglo [ana_guardada]), consola = [(LogError, ErrorAlActualizar)]\<rparr>)"
    by (simp add: update_def isValid_iff validate_ana_sin_terminos console_def s_ana_def)
  moreover have "list_ex (\<lambda>x. id_c x = id_c ana_sin_terminos) (fst (getAll E0 s_ana))"
    by (simp add: getAll_s_ana id_examples ana_sin_terminos_def ana_def)
  ultimately show ?thesis
    by (simp add: update_ana_same_clock fechas_ana creada_despues)
qed

theorem update_replaces_in_place_witness:
  "fst (update E0 despues ana_sin_terminos s_ana) = Inl (ContactoInvalido [TerminosNoAceptados]) \<and>
   almacen (snd (update E0 despues ana_sin_terminos s_ana)) = Some (Arreglo [ana_guardada]) \<and>
   fst (update E0 despues beto s_ana) = Inl NoEncontrado \<and>
   guardados (snd (update E0 despues beto s_ana)) = [ana_guardada] \<and>
   fst (update E0 despues ana s_ana) = Inr True \<and>
   almacen (snd (update E0 despues ana s_ana)) =
     Some (Arreglo [ana_guardada\<lparr>fechaActualizacion := despues\<rparr>]) \<and>
   fechaCreacion (guardados (snd (update E0 despues ana s_ana)) ! 0)
     < fechaActualizacion (guardados (snd (update E0 despues ana s_ana)) ! 0)"
proof -
  have store: "almacen s_ana = Some (Arreglo [ana_guardada])" "guardados s_ana = [ana_guardada]"
    by (simp_all add: s_ana_def)
  have inv: "\<not> isValid ana_sin_terminos"
    by (simp add: isValid_iff validate_ana_sin_terminos)
  have missing: "isValid beto \<and> findIndex (\<lambda>x. id_c x = id_c beto) (fst (getAll E0 s_ana)) = None"
    by (simp add: isValid_iff validate_beto getAll_s_ana id_examples)
  have found: "isValid ana \<and> findIndex (\<lambda>x. id_c x = id_c ana) (fst (getAll E0 s_ana)) = Some 0"
    by (simp add: isValid_iff validate_ana getAll_s_ana id_examples)
  have json: "toJSON (touch despues ana) = ana_guardada\<lparr>fechaActualizacion := despues\<rparr>"
    by (simp add: toJSON_touch toJSON_ana)
  from update_replaces_in_place [where c = ana_sin_terminos and E = E0 and ahora = despues and s = s_ana and k = 0] inv
  have one: "fst (update E0 despues ana_sin_terminos s_ana) =
        Inl (ContactoInvalido [TerminosNoAceptados]) \<and>
      almacen (snd (update E0 despues ana_sin_terminos s_ana)) = Some (Arreglo [ana_guardada])"
    by (simp add: store validate_ana_sin_terminos)
  from update_replaces_in_place [where c = beto and E = E0 and ahora = despues and s = s_ana and k = 0] missing
  have two: "fst (update E0 despues beto s_ana) = Inl NoEncontrado \<and>
      guardados (snd (update E0 despues beto s_ana)) = [ana_guardada]"
    by (simp add: store)
  from update_replaces_in_place [where c = ana and E = E0 and ahora = despues and s = s_ana and k = 0] found
  have three: "fst (update E0 despues ana s_ana) = Inr True \<and>
      almacen (snd (update E0 despues ana s_ana)) =
        Some (Arreglo [ana_guardada\<lparr>fechaActualizacion := despues\<rparr>]) \<and>
      fechaCreacion (guardados (snd (update E0 despues ana s_ana)) ! 0)
        < fechaActualizacion (guardados (snd (update E0 despues ana s_ana)) ! 0)"
    by (simp add: getAll_s_ana json fechas_ana creada_despues)
  from one two three show ?thesis by blast
qed

section \<open>C6: getAll reads the store on every call\<close>

lemma getAll_ls_ignores_repo: "fst (getAll_ls (t\<lparr>repo := r\<rparr>)) = fst (getAll_ls t)"
  by (simp add: getAll_ls_def cargarAlmacenamiento_def split: option.splits sf_text.splits)

text \<open>
  C6, for the repositories that keep the collection in localStorage. In
  \<^verbatim>\<open>ContactRepository\<close> the result of \<^verbatim>\<open>getAll\<close> is made from the stored text of
  the moment: empty when the key is missing, the instances of the stored array otherwise,
  and a read that follows a write sees the written array whatever an earlier read
  returned. In the localStorage \<^verbatim>\<open>ContactoRepository\<close> the result does not depend on
  the array \<^verbatim>\<open>this.repo\<close> left by earlier calls: it is empty when the key is missing
  and the stored array otherwise.
\<close>

theorem getAll_reads_store:
  "(almacen s = None \<longrightarrow> fst (getAll E s) = []) \<and>
   (almacen s = Some (Arreglo ds) \<longrightarrow>
      fst (getAll E s) = map (\<lambda>(i, d). fromJSON (E i) d) (enumerate 0 ds)) \<and>
   fst (getAll E' (setItem (Arreglo ds') (snd (getAll E s)))) =
     map (\<lambda>(i, d). fromJSON (E' i) d) (enumerate 0 ds') \<and>
   fst (getAll_ls (t\<lparr>repo := r\<rparr>)) = fst (getAll_ls t) \<and>
   (localStorage t = None \<longrightarrow> fst (getAll_ls t) = Inr []) \<and>
   (localStorage t = Some (SfArreglo xs) \<longrightarrow> fst (getAll_ls t) = Inr xs)"
proof (intro conjI impI)
  assume "almacen s = None"
  then show "fst (getAll E s) = []" by simp
next
  assume "almacen s = Some (Arreglo ds)"
  then show "fst (getAll E s) = map (\<lambda>(i, d). fromJSON (E i) d) (enumerate 0 ds)"
    by (simp add: getAll_Arreglo)
next
  have "almacen (setItem (Arreglo ds') (snd (getAll E s))) = Some (Arreglo ds')"
    by (simp add: setItem_def)
  then show "fst (getAll E' (setItem (Arreglo ds') (snd (getAll E s)))) =
      map (\<lambda>(i, d). fromJSON (E' i) d) (enumerate 0 ds')"
    by (simp add: getAll_Arreglo)
next
  show "fst (getAll_ls (t\<lparr>repo := r\<rparr>)) = fst (getAll_ls t)"
    by (rule getAll_ls_ignores_repo)
next
  assume "localStorage t = None"
  then show "fst (getAll_ls t) = Inr []"
    by (simp add: getAll_ls_def cargarAlmacenamiento_def)
next
  assume "localStorage t = Some (SfArreglo xs)"
  then show "fst (getAll_ls t) = Inr xs"
    by (simp add: getAll_ls_def)
qed

text \<open>
  C6 as stated fails on the in-memory repository: after \<^verbatim>\<open>add\<close> there is still no
  stored text, and \<^verbatim>\<open>getAll\<close> returns the record.
\<close>

theorem getAll_mem_counterexample:
  "localStorage (add_mem k1 s_nuevo) = None \<and>
   fst (getAll_mem (add_mem k1 s_nuevo)) = [k1]"
  by (simp add: add_mem_def getAll_mem_def s_nuevo_def)

theorem getAll_reads_store_witness:
  "fst (getAll E0 s_sin_clave) = [] \<and>
   fst (getAll E0 s_ana) = [ana_guardada] \<and>
   fst (getAll_ls s_nuevo) = Inr [] \<and>
   fst (getAll_ls s_tres) = Inr [k1, k2, k3]"
proof -
  have a: "almacen s_sin_clave = None" "almacen s_ana = Some (Arreglo [ana_guardada])"
    by (simp_all add: s_sin_clave_def s_ana_def)
  have b: "localStorage s_nuevo = None" "localStorage s_tres = Some (SfArreglo [k1, k2, k3])"
    by (simp_all add: s_nuevo_def s_tres_def)
  have c: "map (\<lambda>(i, d). fromJSON (E0 i) d) (enumerate 0 [ana_guardada]) = [ana_guardada]"
    by (simp add: instancia_examples)
  from getAll_reads_store [where s = s_sin_clave and E = E0 and t = s_nuevo] a b
  have one: "fst (getAll E0 s_sin_clave) = [] \<and> fst (getAll_ls s_nuevo) = Inr []"
    by simp
  from getAll_reads_store [where s = s_ana and E = E0 and t = s_tres and ds = "[ana_guardada]"
      and xs = "[k1, k2, k3]"] a b c
  have two: "fst (getAll E0 s_ana) = [ana_guardada] \<and> fst (getAll_ls s_tres) = Inr [k1, k2, k3]"
    by simp
  from one two show ?thesis by blast
qed

section \<open>The stored collection after each operation\<close>

lemma add_guardados:
  "guardados (snd (add E1 E2 c s)) =
     (if isValid c \<and> \<not> list_ex (\<lambda>x. id_c x = id_c c) (leer E1 (guardados s))
      then map toJSON (leer E2 (guardados s) @ [c])
      else guardados s)"
proof (cases "isValid c")
  case False
  then show ?thesis by (simp add: add_invalid)
next
  case True
  show ?thesis
  proof (cases "list_ex (\<lambda>x. id_c x = id_c c) (fst (getAll E1 s))")
    case True
    with \<open>isValid c\<close> show ?thesis
      by (simp add: add_duplicate) (simp add: fst_getAll)
  next
    case False
    with \<open>isValid c\<close> have "almacen (snd (add E1 E2 c s)) =
        Some (Arreglo (map toJSON (fst (getAll E2 s) @ [c])))"
      by (rule add_ok)
    then have "guardados (snd (add E1 E2 c s)) = map toJSON (fst (getAll E2 s) @ [c])"
      by (rule guardados_Arreglo)
    with \<open>isValid c\<close> False show ?thesis
      by (simp add: fst_getAll)
  qed
qed

lemma update_guardados:
  "guardados (snd (update E ahora c s)) =
     (if isValid c then
        (case findIndex (\<lambda>x. id_c x = id_c c) (leer E (guardados s)) of
           None \<Rightarrow> guardados s
         | Some k \<Rightarrow> map toJSON ((leer E (guardados s))[k := touch ahora c]))
      else guardados s)"
proof (cases "isValid c")
  case False
  then show ?thesis by (simp add: update_invalid)
next
  case True
  show ?thesis
  proof (cases "findIndex (\<lambda>x. id_c x = id_c c) (fst (getAll E s))")
    case None
    with True show ?thesis
      by (simp add: update_missing) (simp add: fst_getAll)
  next
    case (Some k)
    with True show ?thesis
      by (simp add: update_found) (simp add: fst_getAll)
  qed
qed

lemma remove_guardados:
  "guardados (snd (remove E i s)) =
     (case findIndex (\<lambda>x. id_c x = i) (leer E (guardados s)) of
        None \<Rightarrow> guardados s
      | Some k \<Rightarrow> map toJSON (splice1 k (leer E (guardados s))))"
proof (cases "findIndex (\<lambda>x. id_c x = i) (fst (getAll E s))")
  case None
  then show ?thesis
    by (simp add: remove_missing) (simp add: fst_getAll)
next
  case (Some k)
  then show ?thesis
    by (simp add: remove_found) (simp add: fst_getAll)
qed

lemma clear_guardados [simp]: "guardados (snd (clear E s)) = []"
  by (simp add: clear_def case_prod_beta guardados_def setItem_def console_def)

section \<open>C7: identifiers stay distinct\<close>

lemma list_ex_id_iff: "list_ex (\<lambda>x. id_c x = i) xs \<longleftrightarrow> i \<in> set (map id_c xs)"
  by (auto simp add: list_ex_iff)

lemma id_c_comp_toJSON [simp]: "id_c \<circ> toJSON = id_c"
  by (rule ext) simp

lemma map_id_c_toJSON [simp]: "map id_c (map toJSON xs) = map id_c xs"
  by simp

lemma splice1_map: "splice1 k (map f xs) = map f (splice1 k xs)"
  by (simp add: splice1_def take_map drop_map)

lemma distinct_splice1: "distinct xs \<Longrightarrow> distinct (splice1 k xs)"
proof -
  assume d: "distinct xs"
  have "set (take k xs) \<inter> set (drop (Suc k) xs) \<subseteq> set (take k xs) \<inter> set (drop k xs)"
    using set_drop_subset_set_drop [of k "Suc k" xs] by auto
  also from d have "set (take k xs) \<inter> set (drop k xs) = {}"
    by (metis append_take_drop_id distinct_append)
  finally show ?thesis
    using d by (simp add: splice1_def)
qed

lemma set_splice1_subset: "set (splice1 k xs) \<subseteq> set xs"
  by (auto simp add: splice1_def dest: in_set_takeD in_set_dropD)

lemma ids_ok_add:
  assumes "ids_ok s" and "id_c c \<noteq> []"
  shows "ids_ok (snd (add E1 E2 c s))"
proof -
  from assms(1) have ne: "list_all (\<lambda>d. id_c d \<noteq> []) (guardados s)"
    and di: "distinct (map id_c (guardados s))"
    by (simp_all add: ids_ok_def)
  show ?thesis
  proof (cases "isValid c \<and> \<not> list_ex (\<lambda>x. id_c x = id_c c) (leer E1 (guardados s))")
    case False
    then have "guardados (snd (add E1 E2 c s)) = guardados s"
      by (auto simp add: add_guardados)
    with assms(1) show ?thesis by (simp add: ids_ok_def)
  next
    case True
    then have g: "guardados (snd (add E1 E2 c s)) = map toJSON (leer E2 (guardados s) @ [c])"
      by (simp add: add_guardados)
    from True have fresh: "id_c c \<notin> set (map id_c (guardados s))"
      using map_id_c_leer [OF ne, of E1] by (simp add: list_ex_id_iff)
    have ids: "map id_c (guardados (snd (add E1 E2 c s))) = map id_c (guardados s) @ [id_c c]"
      using map_id_c_leer [OF ne, of E2] by (simp add: g)
    have "list_all (\<lambda>d. id_c d \<noteq> []) (guardados (snd (add E1 E2 c s)))"
      using assms(2) by (simp add: g list_all_iff) (simp add: list_all_iff [symmetric])
    with ids fresh di show ?thesis
      by (simp add: ids_ok_def)
  qed
qed

lemma ids_ok_update:
  assumes "ids_ok s" and "id_c c \<noteq> []"
  shows "ids_ok (snd (update E ahora c s))"
proof -
  from assms(1) have ne: "list_all (\<lambda>d. id_c d \<noteq> []) (guardados s)"
    by (simp add: ids_ok_def)
  show ?thesis
  proof (cases "isValid c")
    case False
    with assms(1) show ?thesis by (simp add: ids_ok_def update_guardados)
  next
    case True
    show ?thesis
    proof (cases "findIndex (\<lambda>x. id_c x = id_c c) (leer E (guardados s))")
      case None
      with True assms(1) show ?thesis by (simp add: ids_ok_def update_guardados)
    next
      case (Some k)
      then have k: "k < length (guardados s)" and same: "id_c (leer E (guardados s) ! k) = id_c c"
        using findIndex_Some [OF Some] by simp_all
      from True Some
      have g: "guardados (snd (update E ahora c s)) =
          map toJSON ((leer E (guardados s))[k := touch ahora c])"
        by (simp add: update_guardados)
      have "map id_c (guardados (snd (update E ahora c s))) =
          (map id_c (leer E (guardados s)))[k := id_c c]"
        by (simp add: g map_update)
      also have "\<dots> = (map id_c (leer E (guardados s)))[k := map id_c (leer E (guardados s)) ! k]"
        using k same by simp
      also have "\<dots> = map id_c (guardados s)"
        using map_id_c_leer [OF ne, of E] by simp
      finally have ids: "map id_c (guardados (snd (update E ahora c s))) = map id_c (guardados s)" .
      have "list_all (\<lambda>d. id_c d \<noteq> []) (guardados (snd (update E ahora c s))) =
          list_all (\<lambda>i. i \<noteq> []) (map id_c (guardados (snd (update E ahora c s))))"
        by (simp add: list_all_iff)
      also have "\<dots> = list_all (\<lambda>d. id_c d \<noteq> []) (guardados s)"
        by (simp add: ids list_all_iff)
      finally show ?thesis
        using assms(1) ids by (simp add: ids_ok_def)
    qed
  qed
qed

lemma ids_ok_remove:
  assumes "ids_ok s"
  shows "ids_ok (snd (remove E i s))"
proof -
  from assms(1) have ne: "list_all (\<lambda>d. id_c d \<noteq> []) (guardados s)"
    and di: "distinct (map id_c (guardados s))"
    by (simp_all add: ids_ok_def)
  show ?thesis
  proof (cases "findIndex (\<lambda>x. id_c x = i) (leer E (guardados s))")
    case None
    with assms show ?thesis by (simp add: ids_ok_def remove_guardados)
  next
    case (Some k)
    then have g: "guardados (snd (remove E i s)) = map toJSON (splice1 k (leer E (guardados s)))"
      by (simp add: remove_guardados)
    have ids: "map id_c (guardados (snd (remove E i s))) = splice1 k (map id_c (guardados s))"
      using map_id_c_leer [OF ne, of E] by (simp add: g splice1_map [symmetric])
    have "list_all (\<lambda>d. id_c d \<noteq> []) (guardados (snd (remove E i s))) =
        list_all (\<lambda>i. i \<noteq> []) (map id_c (guardados (snd (remove E i s))))"
      by (simp add: list_all_iff)
    moreover have "list_all (\<lambda>i. i \<noteq> []) (splice1 k (map id_c (guardados s)))"
      using ne set_splice1_subset [of k "map id_c (guardados s)"]
      unfolding list_all_iff by fastforce
    ultimately show ?thesis
      using di by (simp add: ids_ok_def ids distinct_splice1)
  qed
qed

lemma ids_ok_clear: "ids_ok (snd (clear E s))"
  by (simp add: ids_ok_def)

lemma ids_ok_aplicar: "ids_ok s \<Longrightarrow> con_id op \<Longrightarrow> ids_ok (aplicar op s)"
  by (cases op) (simp_all add: ids_ok_add ids_ok_update ids_ok_remove ids_ok_clear)

lemma ids_ok_ejecutar: "ids_ok s \<Longrightarrow> list_all con_id ops \<Longrightarrow> ids_ok (ejecutar ops s)"
  by (induction ops arbitrary: s) (simp_all add: ids_ok_aplicar)

text \<open>
  C7, as the code has it. Start from a store that holds no record. After any sequence of
  \<^verbatim>\<open>add\<close>, \<^verbatim>\<open>update\<close>, \<^verbatim>\<open>remove\<close> and \<^verbatim>\<open>clear\<close> of
  \<^verbatim>\<open>ContactRepository\<close>, whose candidates have an identifier as every instance has,
  no two stored records have the same identifier.
\<close>

theorem ids_distinct_after_operations:
  assumes "guardados s = []" and "list_all con_id ops"
  shows "distinct (map id_c (guardados (ejecutar ops s)))"
proof -
  from assms(1) have "ids_ok s"
    by (simp add: ids_ok_def)
  then have "ids_ok (ejecutar ops s)"
    using assms(2) by (rule ids_ok_ejecutar)
  then show ?thesis
    by (simp add: ids_ok_def)
qed

text \<open>
  C7 as stated fails on the framework-free repository, whose \<^verbatim>\<open>add\<close> appends without
  a look at the identifiers: adding the same record twice to the empty store leaves it
  twice in the stored array.
\<close>

theorem add_ls_twice_counterexample:
  "add_ls k1 (snd (add_ls k1 s_nuevo)) =
     (Inr (), \<lparr>repo = [k1, k1], localStorage = Some (SfArreglo [k1, k1])\<rparr>) \<and>
   \<not> distinct (map id_sf [k1, k1])"
  by (simp add: add_ls_def cargarAlmacenamiento_def guardarAlmacenamiento_def s_nuevo_def)

text \<open>The import of \<^verbatim>\<open>ContactRepository\<close> looks for each identifier in the store as
  it was before the import, so two records of one identifier in the imported array are
  both stored.\<close>

lemma import_same_id_twice:
  "importFromJSON E0 E0 (\<lambda>i. E0) (Arreglo [ana_guardada, ana_guardada]) s_vacio =
     (Inr \<lparr>r_imported = 2, r_skipped = 0, r_errors = [], r_total = 2\<rparr>,
      \<lparr>almacen = Some (Arreglo [ana_guardada, ana_guardada]), consola = []\<rparr>)"
  by (simp add: importFromJSON_def getAll_s_vacio instancia_examples isValid_iff
      validate_ana_guardada getById_def saveToStorage_def setItem_def canonico_examples)
     (simp add: s_vacio_def)

theorem ids_distinct_after_operations_witness:
  "guardados (ejecutar [Add E0 E0 ana, Add E0 E0 ana, Add E0 E0 beto, Remove E0 ''contact_1_a'']
      s_vacio) = [beto] \<and>
   distinct (map id_c (guardados
     (ejecutar [Add E0 E0 ana, Add E0 E0 ana, Add E0 E0 beto, Remove E0 ''contact_1_a'']
        s_vacio)))"
proof -
  have empty: "guardados s_vacio = []"
    by (simp add: s_vacio_def guardados_def)
  have ops: "list_all con_id
      [Add E0 E0 ana, Add E0 E0 ana, Add E0 E0 beto, Remove E0 ''contact_1_a'']"
    by (simp add: id_examples)
  have run: "guardados
      (ejecutar [Add E0 E0 ana, Add E0 E0 ana, Add E0 E0 beto, Remove E0 ''contact_1_a'']
         s_vacio) = [beto]"
    by (simp add: add_guardados remove_guardados empty isValid_iff validate_ana validate_beto
        toJSON_ana toJSON_beto instancia_examples leer_instancia id_examples splice1_def
        canonico_examples)
  from ids_distinct_after_operations [OF empty ops] run show ?thesis
    by simp
qed

section \<open>The import loop\<close>

lemma getAll_legible: "legible s \<Longrightarrow> getAll E s = (leer E (guardados s), s)"
proof -
  assume l: "legible s"
  show ?thesis
  proof (cases "almacen s")
    case None
    then show ?thesis by (simp add: guardados_def)
  next
    case (Some t)
    with l show ?thesis
      by (cases t) (simp_all add: legible_def guardados_def getAll_Arreglo_leer)
  qed
qed

lemma legible_snd_getAll [simp]: "legible (snd (getAll E s))"
  by (simp add: legible_def almacen_snd_getAll)

lemma getById_legible:
  "legible s \<Longrightarrow> getById E i s = (find (\<lambda>x. id_c x = i) (leer E (guardados s)), s)"
  by (simp add: getById_def getAll_legible)

lemma import_forEach_state:
  "legible s \<Longrightarrow> snd (import_forEach Ed Eg n data acc s) = s"
  by (induction data arbitrary: n acc) (simp_all add: Let_def getById_legible split: option.splits)

lemma import_forEach_all:
  assumes "legible s"
    and "list_all (\<lambda>c. instancia c \<and> isValid c) (currentContacts acc)"
    and "list_all (\<lambda>i. entorno_ok (Ed i)) [n..<n + length data]"
  shows "list_all (\<lambda>c. instancia c \<and> isValid c)
           (currentContacts (fst (import_forEach Ed Eg n data acc s)))"
  using assms(2,3)
proof (induction data arbitrary: n acc)
  case Nil
  then show ?case by simp
next
  case (Cons d data)
  from Cons.prems(2) have range: "\<forall>i\<in>{n..<n + length (d # data)}. entorno_ok (Ed i)"
    unfolding list_all_iff set_upt .
  then have here: "entorno_ok (Ed n)"
    by simp
  from range have "\<forall>i\<in>{Suc n..<Suc n + length data}. entorno_ok (Ed i)"
    by simp
  then have rest: "list_all (\<lambda>i. entorno_ok (Ed i)) [Suc n..<Suc n + length data]"
    unfolding list_all_iff set_upt .
  from here have inst: "instancia (fromJSON (Ed n) d)"
    by (simp add: fromJSON_def instancia_Contacto)
  show ?case
  proof (cases "isValid (fromJSON (Ed n) d)")
    case False
    then show ?thesis
      using Cons.IH [OF _ rest, of "acc\<lparr>errors := errors acc @ [(n + 1, validate (fromJSON (Ed n) d))]\<rparr>"]
        Cons.prems(1)
      by (simp add: Let_def)
  next
    case True
    show ?thesis
    proof (cases "find (\<lambda>x. id_c x = id_c (fromJSON (Ed n) d)) (leer (Eg n) (guardados s))")
      case None
      then show ?thesis
        using Cons.IH [OF _ rest, of "acc\<lparr>currentContacts := currentContacts acc @ [fromJSON (Ed n) d],
            imported := imported acc + 1\<rparr>"] Cons.prems(1) True inst assms(1)
        by (simp add: Let_def getById_legible)
    next
      case (Some x)
      then show ?thesis
        using Cons.IH [OF _ rest, of "acc\<lparr>skipped := skipped acc + 1\<rparr>"]
          Cons.prems(1) True assms(1)
        by (simp add: Let_def getById_legible)
    qed
  qed
qed

lemma import_forEach_empty_store:
  assumes "legible s" and "guardados s = []"
    and "list_all (\<lambda>d. instancia d \<and> isValid d) data"
  shows "import_forEach Ed Eg n data acc s =
           (acc\<lparr>currentContacts := currentContacts acc @ data,
                imported := imported acc + length data\<rparr>, s)"
  using assms(3)
proof (induction data arbitrary: n acc)
  case Nil
  then show ?case by simp
next
  case (Cons d data)
  then have d: "instancia d" "isValid d"
    and rest: "list_all (\<lambda>d. instancia d \<and> isValid d) data"
    by simp_all
  show ?case
    using Cons.IH [OF rest, of "Suc n" "acc\<lparr>currentContacts := currentContacts acc @ [d],
        imported := imported acc + 1\<rparr>"] d assms(1,2)
    by (simp add: Let_def getById_legible)
qed

lemma importFromJSON_guardados:
  "guardados (snd (importFromJSON E Ed Eg (Arreglo data) s)) =
     map toJSON (currentContacts (fst (import_forEach Ed Eg 0 data
       \<lparr>currentContacts = leer E (guardados s), imported = 0, skipped = 0, errors = []\<rparr>
       (snd (getAll E s)))))"
  by (simp add: importFromJSON_def case_prod_beta fst_getAll)

section \<open>What the repository writes is canonical and valid\<close>

lemma list_all_canonico_leer:
  "list_all (\<lambda>d. canonico d \<and> isValid d) ds \<Longrightarrow> leer E ds = ds"
  by (rule leer_instancia) (simp add: list_all_iff canonico_instancia)

lemma map_toJSON_canonico:
  "list_all (\<lambda>d. canonico d \<and> isValid d) ds \<Longrightarrow> map toJSON ds = ds"
  by (induction ds) simp_all

lemma almacen_ok_add:
  assumes "almacen_ok s" and "instancia c"
  shows "almacen_ok (snd (add E1 E2 c s))"
proof -
  from assms(1) have ok: "list_all (\<lambda>d. canonico d \<and> isValid d) (guardados s)"
    by (simp add: almacen_ok_def)
  show ?thesis
    using ok assms(2)
    by (simp add: almacen_ok_def add_guardados list_all_canonico_leer map_toJSON_canonico
        canonico_toJSON)
qed

lemma almacen_ok_update:
  assumes "almacen_ok s" and "instancia c" and "ahora \<noteq> []"
  shows "almacen_ok (snd (update E ahora c s))"
proof -
  from assms(1) have ok: "list_all (\<lambda>d. canonico d \<and> isValid d) (guardados s)"
    by (simp add: almacen_ok_def)
  have new: "isValid c \<Longrightarrow> canonico (toJSON (touch ahora c)) \<and> isValid (toJSON (touch ahora c))"
    using assms(2,3) by (simp add: canonico_toJSON instancia_touch)
  have upd: "list_all (\<lambda>d. canonico d \<and> isValid d) ((guardados s)[k := toJSON (touch ahora c)])"
    if "isValid c" for k
    using ok new [OF that] set_update_subset_insert [of "guardados s" k "toJSON (touch ahora c)"]
    unfolding list_all_iff by fastforce
  show ?thesis
    using ok upd
    by (simp add: almacen_ok_def update_guardados list_all_canonico_leer map_update
        map_toJSON_canonico split: option.splits)
qed

lemma almacen_ok_remove:
  assumes "almacen_ok s"
  shows "almacen_ok (snd (remove E i s))"
proof -
  from assms(1) have ok: "list_all (\<lambda>d. canonico d \<and> isValid d) (guardados s)"
    by (simp add: almacen_ok_def)
  have sp: "list_all (\<lambda>d. canonico d \<and> isValid d) (splice1 k (guardados s))" for k
    using ok set_splice1_subset [of k "guardados s"] unfolding list_all_iff by fastforce
  show ?thesis
    using ok sp
    by (simp add: almacen_ok_def remove_guardados list_all_canonico_leer map_toJSON_canonico
        split: option.splits)
qed

lemma almacen_ok_clear: "almacen_ok (snd (clear E s))"
  by (simp add: almacen_ok_def)

lemma almacen_ok_import:
  assumes "almacen_ok s" and "entrada_ok (Import E Ed Eg j)"
  shows "almacen_ok (snd (importFromJSON E Ed Eg j s))"
proof (cases j)
  case (Arreglo data)
  from assms(1) have ok: "list_all (\<lambda>d. canonico d \<and> isValid d) (guardados s)"
    by (simp add: almacen_ok_def)
  then have start: "list_all (\<lambda>c. instancia c \<and> isValid c) (leer E (guardados s))"
    by (simp add: list_all_canonico_leer) (simp add: list_all_iff canonico_instancia)
  from assms(2) Arreglo have env: "list_all (\<lambda>i. entorno_ok (Ed i)) [0..<length data]"
    by simp
  have "list_all (\<lambda>c. instancia c \<and> isValid c)
      (currentContacts (fst (import_forEach Ed Eg 0 data
        \<lparr>currentContacts = leer E (guardados s), imported = 0, skipped = 0, errors = []\<rparr>
        (snd (getAll E s)))))"
    by (rule import_forEach_all) (simp_all add: start env)
  then show ?thesis
    by (simp add: almacen_ok_def Arreglo importFromJSON_guardados list_all_iff canonico_toJSON)
next
  case Vacio
  with assms(1) show ?thesis by (simp add: almacen_ok_def importFromJSON_def)
next
  case Ilegible
  with assms(1) show ?thesis by (simp add: almacen_ok_def importFromJSON_def)
next
  case Nulo
  with assms(1) show ?thesis by (simp add: almacen_ok_def importFromJSON_def)
next
  case NoArreglo
  with assms(1) show ?thesis by (simp add: almacen_ok_def importFromJSON_def)
qed

lemma almacen_ok_aplicar: "almacen_ok s \<Longrightarrow> entrada_ok op \<Longrightarrow> almacen_ok (aplicar op s)"
proof (cases op)
  case (Import E Ed Eg j)
  assume "almacen_ok s" and "entrada_ok op"
  with Import show ?thesis
    using almacen_ok_import [of s E Ed Eg j] by simp
qed (simp_all add: almacen_ok_add almacen_ok_update almacen_ok_remove almacen_ok_clear)

text \<open>Every store the repository reaches from one without records, through operations
  on instances, holds canonical and valid records only.\<close>

lemma almacen_ok_ejecutar:
  "almacen_ok s \<Longrightarrow> list_all entrada_ok ops \<Longrightarrow> almacen_ok (ejecutar ops s)"
  by (induction ops arbitrary: s) (simp_all add: almacen_ok_aplicar)

lemma almacen_ok_empty: "guardados s = [] \<Longrightarrow> almacen_ok s"
  by (simp add: almacen_ok_def)

lemma almacen_ok_from_empty:
  "guardados s = [] \<Longrightarrow> list_all entrada_ok ops \<Longrightarrow> almacen_ok (ejecutar ops s)"
  by (rule almacen_ok_ejecutar) (simp_all add: almacen_ok_empty)

section \<open>C2: add followed by getAll\<close>

lemma filter_id_none:
  "\<not> list_ex (\<lambda>x. id_c x = i) xs \<Longrightarrow> filter (\<lambda>r. id_c r = i) xs = []"
  by (induction xs) auto

lemma asunto_preferencia_toJSON:
  "asunto (toJSON c) = asunto c" "preferenciaContacto (toJSON c) = preferenciaContacto c"
  by (simp_all add: toJSON_def)

text \<open>
  C2, as the code has it. The store holds what the repository wrote (\<open>almacen_ok\<close>, an
  invariant of the operations: lemma \<open>almacen_ok_ejecutar\<close>), and the candidate is an
  instance as the constructor builds it and passes validation. When no stored record has
  its identifier, \<^verbatim>\<open>add\<close> returns true and the next \<^verbatim>\<open>getAll\<close> holds exactly
  one record with that identifier: the \<^verbatim>\<open>toJSON\<close> of the candidate, with the email
  trimmed and in lower case and \<^verbatim>\<open>nombre\<close>, \<^verbatim>\<open>telefono\<close> and \<^verbatim>\<open>mensaje\<close>
  trimmed, while \<^verbatim>\<open>asunto\<close> and \<^verbatim>\<open>preferenciaContacto\<close> are stored as given.
  When a stored record has the identifier already, \<^verbatim>\<open>add\<close> rejects and the next
  \<^verbatim>\<open>getAll\<close> returns what it returned before.
\<close>

theorem add_then_getAll:
  assumes "almacen_ok s" and "instancia c" and "isValid c"
  shows "(\<not> list_ex (\<lambda>x. id_c x = id_c c) (guardados s) \<longrightarrow>
            fst (add E1 E2 c s) = Inr True \<and>
            filter (\<lambda>r. id_c r = id_c c) (fst (getAll E (snd (add E1 E2 c s)))) = [toJSON c]) \<and>
         (list_ex (\<lambda>x. id_c x = id_c c) (guardados s) \<longrightarrow>
            fst (add E1 E2 c s) = Inl IdDuplicado \<and>
            fst (getAll E (snd (add E1 E2 c s))) = fst (getAll E s)) \<and>
         email (toJSON c) = toLowerCase (trim (email c)) \<and>
         toLowerCase (email (toJSON c)) = email (toJSON c) \<and>
         trim (email (toJSON c)) = email (toJSON c) \<and>
         nombre (toJSON c) = trim (nombre c) \<and> trim (nombre (toJSON c)) = nombre (toJSON c) \<and>
         telefono (toJSON c) = trim (telefono c) \<and>
         trim (telefono (toJSON c)) = telefono (toJSON c) \<and>
         mensaje (toJSON c) = trim (mensaje c) \<and> trim (mensaje (toJSON c)) = mensaje (toJSON c) \<and>
         asunto (toJSON c) = asunto c \<and>
         preferenciaContacto (toJSON c) = preferenciaContacto c"
proof -
  from assms(1) have ok: "list_all (\<lambda>d. canonico d \<and> isValid d) (guardados s)"
    by (simp add: almacen_ok_def)
  then have read: "leer E' (guardados s) = guardados s" for E'
    by (rule list_all_canonico_leer)
  have fresh_case: "fst (add E1 E2 c s) = Inr True \<and>
      filter (\<lambda>r. id_c r = id_c c) (fst (getAll E (snd (add E1 E2 c s)))) = [toJSON c]"
    if new: "\<not> list_ex (\<lambda>x. id_c x = id_c c) (guardados s)"
  proof -
    from assms(3) new have fresh:
      "isValid c \<and> \<not> list_ex (\<lambda>x. id_c x = id_c c) (fst (getAll E1 s))"
      by (simp add: fst_getAll read)
    then have ret: "fst (add E1 E2 c s) = Inr True"
      by (simp add: add_ok)
    from fresh have g: "guardados (snd (add E1 E2 c s)) = guardados s @ [toJSON c]"
      by (simp add: add_guardados fst_getAll read map_toJSON_canonico [OF ok])
    have "almacen_ok (snd (add E1 E2 c s))"
      using assms(1,2) by (rule almacen_ok_add)
    then have "leer E (guardados (snd (add E1 E2 c s))) = guardados (snd (add E1 E2 c s))"
      by (simp add: almacen_ok_def list_all_canonico_leer)
    then have "fst (getAll E (snd (add E1 E2 c s))) = guardados s @ [toJSON c]"
      by (simp add: fst_getAll g)
    then have "filter (\<lambda>r. id_c r = id_c c) (fst (getAll E (snd (add E1 E2 c s)))) = [toJSON c]"
      using new by (simp add: filter_id_none)
    with ret show ?thesis by simp
  qed
  have old_case: "fst (add E1 E2 c s) = Inl IdDuplicado \<and>
      fst (getAll E (snd (add E1 E2 c s))) = fst (getAll E s)"
    if old: "list_ex (\<lambda>x. id_c x = id_c c) (guardados s)"
  proof -
    from assms(3) old have
      "add E1 E2 c s = (Inl IdDuplicado, console LogError ErrorAlAgregar s)"
      by (simp add: add_duplicate fst_getAll read)
    then show ?thesis
      by (simp add: fst_getAll)
  qed
  from fresh_case old_case show ?thesis
    by (simp add: trim_toLowerCase asunto_preferencia_toJSON)
qed

lemma guardados_s_ana: "guardados s_ana = [ana_guardada]"
  by (simp add: s_ana_def)

lemma almacen_ok_s_ana: "almacen_ok s_ana"
  by (simp add: almacen_ok_def guardados_s_ana canonico_examples isValid_iff validate_ana_guardada)

lemma validate_carla: "validate carla = []"
  by code_simp

lemma toJSON_carla: "toJSON carla = carla_guardada"
  by code_simp

lemma id_carla: "id_c carla = ''contact_5_e''" "id_c carla_guardada = ''contact_5_e''"
  by (simp_all add: carla_def carla_guardada_def)

lemma instancia_carla: "instancia carla" "instancia carla_guardada"
  by (simp_all add: instancia_def carla_def carla_guardada_def)

lemma s_importado_eq:
  "s_importado = \<lparr>almacen = Some (Arreglo [ana_guardada, ana_guardada]), consola = []\<rparr>"
  by (simp add: s_importado_def import_same_id_twice)

lemma getAll_s_importado: "getAll E s_importado = ([ana_guardada, ana_guardada], s_importado)"
  by (simp add: s_importado_eq getAll_record leer_instancia instancia_examples)

lemma almacen_ok_s_importado: "almacen_ok s_importado"
  by (simp add: almacen_ok_def s_importado_eq canonico_examples isValid_iff
      validate_ana_guardada)

text \<open>
  C2 as stated fails on \<^verbatim>\<open>ContactRepository\<close>. The import of an array that holds
  Ana's record twice into the empty store leaves it twice in the store; \<^verbatim>\<open>add\<close> of
  a valid candidate with her identifier is then rejected, and the next \<^verbatim>\<open>getAll\<close>
  holds two records with that identifier, not one. And the record stored for a candidate
  whose \<^verbatim>\<open>asunto\<close> has blanks around it keeps them.
\<close>

theorem add_then_getAll_counterexample:
  "s_importado = \<lparr>almacen = Some (Arreglo [ana_guardada, ana_guardada]), consola = []\<rparr> \<and>
   almacen_ok s_importado \<and> instancia ana \<and> isValid ana \<and>
   fst (add E0 E0 ana s_importado) = Inl IdDuplicado \<and>
   filter (\<lambda>r. id_c r = id_c ana) (fst (getAll E0 (snd (add E0 E0 ana s_importado)))) =
     [ana_guardada, ana_guardada] \<and>
   isValid carla \<and> asunto carla = '' consulta '' \<and>
   fst (add E0 E0 carla s_vacio) = Inr True \<and>
   map asunto (filter (\<lambda>r. id_c r = id_c carla)
     (fst (getAll E0 (snd (add E0 E0 carla s_vacio))))) = ['' consulta ''] \<and>
   trim '' consulta '' = ''consulta''"
proof -
  have dup: "add E0 E0 ana s_importado =
      (Inl IdDuplicado, console LogError ErrorAlAgregar s_importado)"
    by (rule add_duplicate)
       (simp_all add: isValid_iff validate_ana getAll_s_importado id_examples)
  have two: "filter (\<lambda>r. id_c r = id_c ana)
      (fst (getAll E0 (snd (add E0 E0 ana s_importado)))) = [ana_guardada, ana_guardada]"
    by (simp add: dup fst_getAll)
       (simp add: s_importado_eq guardados_def leer_instancia instancia_examples id_examples)
  have carla_ok: "isValid carla"
    by (simp add: isValid_iff validate_carla)
  have added: "add E0 E0 carla s_vacio =
      (Inr True,
       \<lparr>almacen = Some (Arreglo [carla_guardada]), consola = [(LogInfo, ContactoAgregado)]\<rparr>)"
    by (simp add: add_def carla_ok getById_def getAll_s_vacio saveToStorage_def setItem_def
        console_def toJSON_carla)
       (simp add: s_vacio_def)
  have stored: "map asunto (filter (\<lambda>r. id_c r = id_c carla)
      (fst (getAll E0 (snd (add E0 E0 carla s_vacio))))) = ['' consulta '']"
    by (simp add: added getAll_record leer_instancia instancia_carla id_carla)
       (simp add: carla_guardada_def)
  have blanks: "trim '' consulta '' = ''consulta''"
    by code_simp
  have "asunto carla = '' consulta ''"
    by (simp add: carla_def)
  with dup two carla_ok added stored blanks show ?thesis
    by (simp add: s_importado_eq [symmetric] almacen_ok_s_importado instancia_examples
        isValid_iff validate_ana)
qed

theorem add_then_getAll_witness:
  "fst (add E0 E0 carla s_ana) = Inr True \<and>
   filter (\<lambda>r. id_c r = ''contact_5_e'') (fst (getAll E0 (snd (add E0 E0 carla s_ana)))) =
     [carla_guardada] \<and>
   nombre carla = ''  Carla Gil '' \<and> nombre carla_guardada = ''Carla Gil'' \<and>
   email carla = '' Carla@Z.NET '' \<and> email carla_guardada = ''carla@z.net'' \<and>
   telefono carla = '' 3001234567 '' \<and> telefono carla_guardada = ''3001234567'' \<and>
   mensaje carla = '' Hola  '' \<and> mensaje carla_guardada = ''Hola'' \<and>
   asunto carla = '' consulta '' \<and> asunto carla_guardada = '' consulta '' \<and>
   fst (add E0 E0 ana s_ana) = Inl IdDuplicado \<and>
   fst (getAll E0 (snd (add E0 E0 ana s_ana))) = [ana_guardada]"
proof -
  have fresh: "\<not> list_ex (\<lambda>x. id_c x = id_c carla) (guardados s_ana)"
    by (simp add: guardados_s_ana id_examples id_carla)
  have old: "list_ex (\<lambda>x. id_c x = id_c ana) (guardados s_ana)"
    by (simp add: guardados_s_ana id_examples)
  have valid: "isValid carla" "isValid ana"
    by (simp_all add: isValid_iff validate_carla validate_ana)
  have inst: "instancia carla" "instancia ana"
    by (simp_all add: instancia_examples instancia_carla)
  from add_then_getAll [OF almacen_ok_s_ana inst(1) valid(1), of E0 E0 E0] fresh
  have one: "fst (add E0 E0 carla s_ana) = Inr True \<and>
      filter (\<lambda>r. id_c r = ''contact_5_e'') (fst (getAll E0 (snd (add E0 E0 carla s_ana)))) =
        [carla_guardada]"
    by (simp add: toJSON_carla id_carla)
  from add_then_getAll [OF almacen_ok_s_ana inst(2) valid(2), of E0 E0 E0] old
  have two: "fst (add E0 E0 ana s_ana) = Inl IdDuplicado \<and>
      fst (getAll E0 (snd (add E0 E0 ana s_ana))) = [ana_guardada]"
    by (simp add: getAll_s_ana)
  have fields: "nombre carla = ''  Carla Gil '' \<and> nombre carla_guardada = ''Carla Gil'' \<and>
      email carla = '' Carla@Z.NET '' \<and> email carla_guardada = ''carla@z.net'' \<and>
      telefono carla = '' 3001234567 '' \<and> telefono carla_guardada = ''3001234567'' \<and>
      mensaje carla = '' Hola  '' \<and> mensaje carla_guardada = ''Hola'' \<and>
      asunto carla = '' consulta '' \<and> asunto carla_guardada = '' consulta ''"
    by (simp add: carla_def carla_guardada_def)
  from one two fields show ?thesis by blast
qed

section \<open>C8: export and import\<close>

lemma exportToJSON_ok:
  "almacen_ok s \<Longrightarrow> fst (exportToJSON E s) = Arreglo (guardados s)"
  by (simp add: exportToJSON_def case_prod_beta fst_getAll almacen_ok_def
      list_all_canonico_leer map_toJSON_canonico)

text \<open>
  C8. The store holds what the repository wrote (\<open>almacen_ok\<close>). Its export, imported
  into a store without records, is imported whole: no record is skipped and none is
  refused, the stored array is the exported one, and \<^verbatim>\<open>getAll\<close> returns the same
  records as on the original store.
\<close>

theorem export_import_roundtrip:
  assumes "almacen_ok s" and "guardados t = []"
  shows "fst (importFromJSON E1 Ed Eg (fst (exportToJSON E s)) t) =
           Inr \<lparr>r_imported = length (guardados s), r_skipped = 0, r_errors = [],
                r_total = length (guardados s)\<rparr> \<and>
         almacen (snd (importFromJSON E1 Ed Eg (fst (exportToJSON E s)) t)) =
           Some (Arreglo (guardados s)) \<and>
         fst (getAll E2 (snd (importFromJSON E1 Ed Eg (fst (exportToJSON E s)) t))) =
           fst (getAll E3 s)"
proof -
  define ds where "ds = guardados s"
  from assms(1) have ok: "list_all (\<lambda>d. canonico d \<and> isValid d) ds"
    by (simp add: almacen_ok_def ds_def)
  then have inst: "list_all (\<lambda>d. instancia d \<and> isValid d) ds"
    by (simp add: list_all_iff canonico_instancia)
  have ex: "fst (exportToJSON E s) = Arreglo ds"
    using assms(1) by (simp add: exportToJSON_ok ds_def)
  define t1 where "t1 = snd (getAll E1 t)"
  have t1: "legible t1" "guardados t1 = []"
    by (simp_all add: t1_def assms(2))
  have first: "getAll E1 t = ([], t1)"
    by (simp add: prod_eq_iff fst_getAll assms(2) t1_def)
  have loop: "import_forEach Ed Eg 0 ds
      \<lparr>currentContacts = [], imported = 0, skipped = 0, errors = []\<rparr> t1 =
      (\<lparr>currentContacts = ds, imported = length ds, skipped = 0, errors = []\<rparr>, t1)"
    using import_forEach_empty_store [OF t1 inst, of Ed Eg 0
        "\<lparr>currentContacts = [], imported = 0, skipped = 0, errors = []\<rparr>"]
    by simp
  have imp: "importFromJSON E1 Ed Eg (Arreglo ds) t =
      (Inr \<lparr>r_imported = length ds, r_skipped = 0, r_errors = [], r_total = length ds\<rparr>,
       saveToStorage ds t1)"
    by (simp add: importFromJSON_def first loop)
  have stored: "almacen (saveToStorage ds t1) = Some (Arreglo ds)"
    by (simp add: map_toJSON_canonico [OF ok])
  then have "fst (getAll E2 (saveToStorage ds t1)) = leer E2 ds"
    by (simp add: getAll_Arreglo_leer)
  moreover have "fst (getAll E3 s) = leer E3 ds"
    by (simp add: fst_getAll ds_def)
  ultimately have same: "fst (getAll E2 (saveToStorage ds t1)) = fst (getAll E3 s)"
    by (simp add: list_all_canonico_leer [OF ok])
  from stored same show ?thesis
    by (simp add: ex imp ds_def [symmetric])
qed

lemma guardados_s_dos: "guardados s_dos = [beto, ana_guardada]"
  by (simp add: s_dos_def)

lemma almacen_ok_s_dos: "almacen_ok s_dos"
  by (simp add: almacen_ok_def guardados_s_dos canonico_examples isValid_iff
      validate_ana_guardada validate_beto)

theorem export_import_roundtrip_witness:
  "fst (importFromJSON E0 E0 (\<lambda>i. E0) (fst (exportToJSON E0 s_dos)) s_vacio) =
     Inr \<lparr>r_imported = 2, r_skipped = 0, r_errors = [], r_total = 2\<rparr> \<and>
   almacen (snd (importFromJSON E0 E0 (\<lambda>i. E0) (fst (exportToJSON E0 s_dos)) s_vacio)) =
     Some (Arreglo [beto, ana_guardada])"
proof -
  have empty: "guardados s_vacio = []"
    by (simp add: s_vacio_def guardados_def)
  from export_import_roundtrip [OF almacen_ok_s_dos empty, of E0 E0 "\<lambda>i. E0" E0 E0 E0]
  show ?thesis
    by (simp add: guardados_s_dos)
qed

section \<open>C10: what update leaves alone\<close>

lemma update_success_found:
  assumes "fst (update E ahora c s) = Inr True"
  shows "isValid c \<and> (\<exists>k. findIndex (\<lambda>x. id_c x = id_c c) (fst (getAll E s)) = Some k)"
proof (cases "isValid c")
  case False
  with assms show ?thesis by (simp add: update_invalid)
next
  case True
  show ?thesis
  proof (cases "findIndex (\<lambda>x. id_c x = id_c c) (fst (getAll E s))")
    case None
    with True assms show ?thesis by (simp add: update_missing)
  next
    case (Some k)
    with True show ?thesis by simp
  qed
qed

lemma indiceElemento_ls_Arreglo:
  "localStorage t = Some (SfArreglo xs) \<Longrightarrow>
     indiceElemento_ls i t =
       (Inr (case findIndex (\<lambda>x. js_String (id_sf x) = js_String i) xs of
               None \<Rightarrow> - 1 | Some k \<Rightarrow> int k),
        t\<lparr>repo := xs\<rparr>)"
  by (simp add: indiceElemento_ls_def bucle_findIndex)

lemma indiceElemento_ls0_Arreglo:
  "localStorage t = Some (SfArreglo xs) \<Longrightarrow>
     indiceElemento_ls0 True i t =
       (Inr (case findIndex (\<lambda>x. id_sf x = i) xs of None \<Rightarrow> - 1 | Some k \<Rightarrow> int k),
        t\<lparr>repo := xs\<rparr>)"
  by (simp add: indiceElemento_ls0_def bucle_findIndex)

lemma update_ls_Arreglo:
  assumes "localStorage t = Some (SfArreglo xs)"
  shows "update_ls c t =
     (case findIndex (\<lambda>x. js_String (id_sf x) = js_String (id_sf c)) xs of
        None \<Rightarrow> (Inr False, t\<lparr>repo := xs\<rparr>)
      | Some k \<Rightarrow>
          if 0 < k then
            (Inr True,
             \<lparr>repo = xs[k := c\<lparr>fechaCreacion_sf := fechaCreacion_sf (xs ! k)\<rparr>],
              localStorage =
                Some (SfArreglo (xs[k := c\<lparr>fechaCreacion_sf := fechaCreacion_sf (xs ! k)\<rparr>]))\<rparr>)
          else (Inr False, t\<lparr>repo := xs\<rparr>))"
  using assms
  by (simp add: update_ls_def indiceElemento_ls_Arreglo guardarAlmacenamiento_def Let_def
      split: option.splits)

lemma update_ls0_Arreglo:
  assumes "localStorage t = Some (SfArreglo xs)"
  shows "update_ls0 True c t =
     (case findIndex (\<lambda>x. id_sf x = id_sf c) xs of
        None \<Rightarrow> (Inr False, t\<lparr>repo := xs\<rparr>)
      | Some k \<Rightarrow>
          if 0 < k then
            (Inr True,
             \<lparr>repo = xs[k := c\<lparr>fechaCreacion_sf := fechaCreacion_sf (xs ! k)\<rparr>],
              localStorage =
                Some (SfArreglo (xs[k := c\<lparr>fechaCreacion_sf := fechaCreacion_sf (xs ! k)\<rparr>]))\<rparr>)
          else (Inr False, t\<lparr>repo := xs\<rparr>))"
  using assms
  by (simp add: update_ls0_def indiceElemento_ls0_Arreglo guardarAlmacenamiento_def Let_def
      split: option.splits)

lemma update_ls_not_array:
  "(\<And>xs. localStorage t \<noteq> Some (SfArreglo xs)) \<Longrightarrow> fst (update_ls c t) \<noteq> Inr True"
  by (cases "localStorage t")
     (auto simp add: update_ls_def cargarAlmacenamiento_def indiceElemento_ls_def
       bucle.simps [of _ "[]"] split: sf_text.splits)

lemma update_ls0_not_array:
  "(\<And>xs. localStorage t \<noteq> Some (SfArreglo xs)) \<Longrightarrow> fst (update_ls0 g c t) \<noteq> Inr True"
  by (cases "localStorage t")
     (auto simp add: update_ls0_def cargarAlmacenamiento_def indiceElemento_ls0_def
       bucle.simps [of _ "[]"] split: sf_text.splits)

lemma update_ls0_no_globals: "fst (update_ls0 False c t) \<noteq> Inr True"
  by (simp add: update_ls0_def indiceElemento_ls0_def cargarAlmacenamiento_def
      split: option.splits sf_text.splits sum.splits)

text \<open>
  C10. A successful \<^verbatim>\<open>ContactRepository.update\<close> on a store that holds what the
  repository wrote (\<open>almacen_ok\<close>) changes the stored array at one index only, the
  first one whose record has the identifier of the candidate: the array keeps its length
  and every record with another identifier is the same as before. A successful
  \<^verbatim>\<open>update\<close> of the localStorage \<^verbatim>\<open>ContactoRepository\<close>, in its later and in its
  earlier version, changes the stored array at one index \<open>k\<close> only, and the record it
  stores there is the candidate with \<^verbatim>\<open>fechaCreacion\<close> overwritten by that of the
  record stored at \<open>k\<close> before.
\<close>

theorem update_frame:
  "(almacen_ok s \<and> fst (update E ahora c s) = Inr True \<longrightarrow>
      (\<exists>k. findIndex (\<lambda>x. id_c x = id_c c) (guardados s) = Some k \<and>
           guardados (snd (update E ahora c s)) = (guardados s)[k := toJSON (touch ahora c)]) \<and>
      length (guardados (snd (update E ahora c s))) = length (guardados s) \<and>
      (\<forall>j. j < length (guardados s) \<and> id_c (guardados s ! j) \<noteq> id_c c \<longrightarrow>
           guardados (snd (update E ahora c s)) ! j = guardados s ! j)) \<and>
   (fst (update_ls c' t) = Inr True \<longrightarrow>
      (\<exists>xs k. localStorage t = Some (SfArreglo xs) \<and> k < length xs \<and>
         findIndex (\<lambda>x. js_String (id_sf x) = js_String (id_sf c')) xs = Some k \<and>
         localStorage (snd (update_ls c' t)) =
           Some (SfArreglo (xs[k := c'\<lparr>fechaCreacion_sf := fechaCreacion_sf (xs ! k)\<rparr>])) \<and>
         fechaCreacion_sf
           (xs[k := c'\<lparr>fechaCreacion_sf := fechaCreacion_sf (xs ! k)\<rparr>] ! k) =
           fechaCreacion_sf (xs ! k) \<and>
         (\<forall>j. j < length xs \<and> j \<noteq> k \<longrightarrow>
            xs[k := c'\<lparr>fechaCreacion_sf := fechaCreacion_sf (xs ! k)\<rparr>] ! j = xs ! j))) \<and>
   (fst (update_ls0 g c' t) = Inr True \<longrightarrow>
      (\<exists>xs k. localStorage t = Some (SfArreglo xs) \<and> k < length xs \<and>
         findIndex (\<lambda>x. id_sf x = id_sf c') xs = Some k \<and>
         localStorage (snd (update_ls0 g c' t)) =
           Some (SfArreglo (xs[k := c'\<lparr>fechaCreacion_sf := fechaCreacion_sf (xs ! k)\<rparr>])) \<and>
         fechaCreacion_sf
           (xs[k := c'\<lparr>fechaCreacion_sf := fechaCreacion_sf (xs ! k)\<rparr>] ! k) =
           fechaCreacion_sf (xs ! k) \<and>
         (\<forall>j. j < length xs \<and> j \<noteq> k \<longrightarrow>
            xs[k := c'\<lparr>fechaCreacion_sf := fechaCreacion_sf (xs ! k)\<rparr>] ! j = xs ! j)))"
proof (intro conjI impI)
  assume h: "almacen_ok s \<and> fst (update E ahora c s) = Inr True"
  then have ok: "list_all (\<lambda>d. canonico d \<and> isValid d) (guardados s)"
    by (simp add: almacen_ok_def)
  then have read: "fst (getAll E s) = guardados s"
    by (simp add: fst_getAll list_all_canonico_leer)
  from h obtain k where valid: "isValid c"
    and k: "findIndex (\<lambda>x. id_c x = id_c c) (guardados s) = Some k"
    using update_success_found [of E ahora c s] by (auto simp add: read)
  from k have kk: "k < length (guardados s)" "id_c (guardados s ! k) = id_c c"
    using findIndex_Some [OF k] by simp_all
  have g: "guardados (snd (update E ahora c s)) = (guardados s)[k := toJSON (touch ahora c)]"
    using valid k
    by (simp add: update_guardados list_all_canonico_leer [OF ok] map_update
        map_toJSON_canonico [OF ok])
  with k show "\<exists>k. findIndex (\<lambda>x. id_c x = id_c c) (guardados s) = Some k \<and>
      guardados (snd (update E ahora c s)) = (guardados s)[k := toJSON (touch ahora c)]"
    by blast
  from g show "length (guardados (snd (update E ahora c s))) = length (guardados s)"
    by simp
  from g kk show "\<forall>j. j < length (guardados s) \<and> id_c (guardados s ! j) \<noteq> id_c c \<longrightarrow>
      guardados (snd (update E ahora c s)) ! j = guardados s ! j"
    by (auto simp add: nth_list_update)
next
  assume h: "fst (update_ls c' t) = Inr True"
  then obtain xs where xs: "localStorage t = Some (SfArreglo xs)"
    using update_ls_not_array [of t c'] by blast
  from h obtain k where k: "findIndex (\<lambda>x. js_String (id_sf x) = js_String (id_sf c')) xs = Some k"
    and pos: "0 < k"
    by (cases "findIndex (\<lambda>x. js_String (id_sf x) = js_String (id_sf c')) xs")
       (auto simp add: update_ls_Arreglo [OF xs] split: if_splits)
  from k have len: "k < length xs"
    by (rule findIndex_length)
  from k pos have "localStorage (snd (update_ls c' t)) =
      Some (SfArreglo (xs[k := c'\<lparr>fechaCreacion_sf := fechaCreacion_sf (xs ! k)\<rparr>]))"
    by (simp add: update_ls_Arreglo [OF xs])
  with xs k len show "\<exists>xs k. localStorage t = Some (SfArreglo xs) \<and> k < length xs \<and>
      findIndex (\<lambda>x. js_String (id_sf x) = js_String (id_sf c')) xs = Some k \<and>
      localStorage (snd (update_ls c' t)) =
        Some (SfArreglo (xs[k := c'\<lparr>fechaCreacion_sf := fechaCreacion_sf (xs ! k)\<rparr>])) \<and>
      fechaCreacion_sf (xs[k := c'\<lparr>fechaCreacion_sf := fechaCreacion_sf (xs ! k)\<rparr>] ! k) =
        fechaCreacion_sf (xs ! k) \<and>
      (\<forall>j. j < length xs \<and> j \<noteq> k \<longrightarrow>
         xs[k := c'\<lparr>fechaCreacion_sf := fechaCreacion_sf (xs ! k)\<rparr>] ! j = xs ! j)"
    by (intro exI [of _ xs] exI [of _ k]) simp
next
  assume h: "fst (update_ls0 g c' t) = Inr True"
  then have g: "g"
    using update_ls0_no_globals [of c' t] by (cases g) simp_all
  from h obtain xs where xs: "localStorage t = Some (SfArreglo xs)"
    using update_ls0_not_array [of t g c'] by blast
  from h g obtain k where k: "findIndex (\<lambda>x. id_sf x = id_sf c') xs = Some k"
    and pos: "0 < k"
    by (cases "findIndex (\<lambda>x. id_sf x = id_sf c') xs")
       (auto simp add: update_ls0_Arreglo [OF xs] split: if_splits)
  from k have len: "k < length xs"
    by (rule findIndex_length)
  from k pos g have "localStorage (snd (update_ls0 g c' t)) =
      Some (SfArreglo (xs[k := c'\<lparr>fechaCreacion_sf := fechaCreacion_sf (xs ! k)\<rparr>]))"
    by (simp add: update_ls0_Arreglo [OF xs])
  with xs k len show "\<exists>xs k. localStorage t = Some (SfArreglo xs) \<and> k < length xs \<and>
      findIndex (\<lambda>x. id_sf x = id_sf c') xs = Some k \<and>
      localStorage (snd (update_ls0 g c' t)) =
        Some (SfArreglo (xs[k := c'\<lparr>fechaCreacion_sf := fechaCreacion_sf (xs ! k)\<rparr>])) \<and>
      fechaCreacion_sf (xs[k := c'\<lparr>fechaCreacion_sf := fechaCreacion_sf (xs ! k)\<rparr>] ! k) =
        fechaCreacion_sf (xs ! k) \<and>
      (\<forall>j. j < length xs \<and> j \<noteq> k \<longrightarrow>
         xs[k := c'\<lparr>fechaCreacion_sf := fechaCreacion_sf (xs ! k)\<rparr>] ! j = xs ! j)"
    by (intro exI [of _ xs] exI [of _ k]) simp
qed

lemma decimal_digit: "n < 10 \<Longrightarrow> decimal n = [digit n]"
  by (simp add: decimal.simps)

lemma update_ana_s_dos:
  "update E0 despues ana s_dos =
     (Inr True,
      \<lparr>almacen = Some (Arreglo [beto, ana_guardada\<lparr>fechaActualizacion := despues\<rparr>]),
       consola = [(LogInfo, ContactoActualizado)]\<rparr>)"
proof -
  have "getAll E0 s_dos = ([beto, ana_guardada], s_dos)"
    by (simp add: getAll_record s_dos_def leer_instancia instancia_examples)
  then show ?thesis
    by (simp add: update_def isValid_iff validate_ana id_examples saveToStorage_def
        setItem_def console_def toJSON_beto toJSON_touch toJSON_ana)
       (simp add: s_dos_def)
qed

lemma update_ls_k2_nuevo:
  "update_ls k2_nuevo s_tres =
     (Inr True,
      \<lparr>repo = [k1, k2_nuevo\<lparr>fechaCreacion_sf := fechaCreacion_sf k2\<rparr>, k3],
       localStorage =
         Some (SfArreglo [k1, k2_nuevo\<lparr>fechaCreacion_sf := fechaCreacion_sf k2\<rparr>, k3])\<rparr>)"
proof -
  have "localStorage s_tres = Some (SfArreglo [k1, k2, k3])"
    by (simp add: s_tres_def)
  then show ?thesis
    by (simp add: update_ls_Arreglo k1_def k2_def k3_def k2_nuevo_def js_String_num_def decimal_digit
        digit_def)
qed

lemma update_ls0_k2_num:
  "update_ls0 True k2_num s_tres =
     (Inr True,
      \<lparr>repo = [k1, k2_num\<lparr>fechaCreacion_sf := fechaCreacion_sf k2\<rparr>, k3],
       localStorage =
         Some (SfArreglo [k1, k2_num\<lparr>fechaCreacion_sf := fechaCreacion_sf k2\<rparr>, k3])\<rparr>)"
proof -
  have "localStorage s_tres = Some (SfArreglo [k1, k2, k3])"
    by (simp add: s_tres_def)
  then show ?thesis
    by (simp add: update_ls0_Arreglo k1_def k2_def k3_def k2_num_def)
qed

theorem update_frame_witness:
  "fst (update E0 despues ana s_dos) = Inr True \<and>
   guardados (snd (update E0 despues ana s_dos)) ! 0 = beto \<and>
   fst (update_ls k2_nuevo s_tres) = Inr True \<and>
   localStorage (snd (update_ls k2_nuevo s_tres)) =
     Some (SfArreglo [k1, k2_nuevo\<lparr>fechaCreacion_sf := fechaCreacion_sf k2\<rparr>, k3]) \<and>
   fst (update_ls0 True k2_num s_tres) = Inr True \<and>
   localStorage (snd (update_ls0 True k2_num s_tres)) =
     Some (SfArreglo [k1, k2_num\<lparr>fechaCreacion_sf := fechaCreacion_sf k2\<rparr>, k3])"
proof -
  have hyp: "almacen_ok s_dos \<and> fst (update E0 despues ana s_dos) = Inr True"
    by (simp add: almacen_ok_s_dos update_ana_s_dos)
  have other: "0 < length (guardados s_dos) \<and> id_c (guardados s_dos ! 0) \<noteq> id_c ana"
    by (simp add: guardados_s_dos id_examples)
  have sf: "fst (update_ls k2_nuevo s_tres) = Inr True"
    "fst (update_ls0 True k2_num s_tres) = Inr True"
    by (simp_all add: update_ls_k2_nuevo update_ls0_k2_num)
  from update_frame [where s = s_dos and E = E0 and ahora = despues and c = ana
      and c' = k2_nuevo and t = s_tres and g = True] hyp other
  have "guardados (snd (update E0 despues ana s_dos)) ! 0 = guardados s_dos ! 0"
    by blast
  then have one: "guardados (snd (update E0 despues ana s_dos)) ! 0 = beto"
    by (simp add: guardados_s_dos)
  from hyp sf one show ?thesis
    by (simp add: update_ls_k2_nuevo update_ls0_k2_num)
qed

section \<open>The removals that do find the record\<close>

text \<open>\<^verbatim>\<open>ContactRepository.remove\<close> and the later \<^verbatim>\<open>ContactoRepository.remove\<close>
  delete the first record with the identifier, at whatever index, and nothing else; when
  there is none the first throws and the second returns false, and the stored collection
  stays as it was.\<close>

lemma remove_first_match:
  assumes "almacen_ok s"
  shows "findIndex (\<lambda>x. id_c x = i) (guardados s) = Some k \<Longrightarrow>
           fst (remove E i s) = Inr True \<and>
           guardados (snd (remove E i s)) = splice1 k (guardados s)"
    and "findIndex (\<lambda>x. id_c x = i) (guardados s) = None \<Longrightarrow>
           fst (remove E i s) = Inl NoEncontrado \<and> guardados (snd (remove E i s)) = guardados s"
proof -
  from assms have ok: "list_all (\<lambda>d. canonico d \<and> isValid d) (guardados s)"
    by (simp add: almacen_ok_def)
  then have read: "fst (getAll E s) = guardados s"
    by (simp add: fst_getAll list_all_canonico_leer)
  have sp: "list_all (\<lambda>d. canonico d \<and> isValid d) (splice1 k (guardados s))"
    using ok set_splice1_subset [of k "guardados s"] unfolding list_all_iff by fastforce
  show "findIndex (\<lambda>x. id_c x = i) (guardados s) = Some k \<Longrightarrow>
           fst (remove E i s) = Inr True \<and>
           guardados (snd (remove E i s)) = splice1 k (guardados s)"
    by (simp add: remove_found read map_toJSON_canonico [OF sp])
  show "findIndex (\<lambda>x. id_c x = i) (guardados s) = None \<Longrightarrow>
           fst (remove E i s) = Inl NoEncontrado \<and> guardados (snd (remove E i s)) = guardados s"
    by (simp add: remove_missing read)
qed

lemma remove_ls_first_match:
  assumes "localStorage t = Some (SfArreglo xs)"
  shows "remove_ls i t =
     (case findIndex (\<lambda>x. js_String (id_sf x) = js_String i) xs of
        None \<Rightarrow> (Inr False, t\<lparr>repo := xs\<rparr>)
      | Some k \<Rightarrow>
          (Inr True, \<lparr>repo = splice1 k xs, localStorage = Some (SfArreglo (splice1 k xs))\<rparr>))"
  using assms
  by (simp add: remove_ls_def indiceElemento_ls_Arreglo guardarAlmacenamiento_def
      split: option.splits)

end
